theory Spec2Isabelle
  imports Complex_Main
begin

section \<open>Python values used by the tax assistant\<close>

text \<open>
  The repository is Python. Its floating-point amounts are modelled by exact rationals:
  every finite float is a rational, rounding is left out, and the non-finite values (inf,
  nan) have no counterpart. Python exceptions are values of the type \<open>py_error\<close>. The
  strings of the form schemas, of the stored answers and of the amounts are modelled by
  \<^typ>\<open>string\<close>, that is by lists of 8-bit characters (the Latin-1 range of Python's code
  points); the argument of the identifier validator, which may be any text, is a list of
  code points (see \<open>ustring\<close> below).
\<close>

datatype py_error = NameError | AttributeError | IndexError | KeyError | ZeroDivisionError

datatype pyval = PyNone | PyNum rat | PyStr string

definition is_digit :: "char \<Rightarrow> bool" where
  "is_digit c \<longleftrightarrow> 48 \<le> (of_char c :: nat) \<and> (of_char c :: nat) \<le> 57"

definition digit_val :: "char \<Rightarrow> nat" where
  "digit_val c = (of_char c :: nat) - 48"

text \<open>\<^verbatim>\<open>str.isspace\<close> on the Latin-1 range: tab to carriage return, the four separators
  \<^verbatim>\<open>\x1c..\x1f\<close>, space, NEL and the no-break space.\<close>

definition is_space :: "char \<Rightarrow> bool" where
  "is_space c \<longleftrightarrow> (let n = (of_char c :: nat) in
     (9 \<le> n \<and> n \<le> 13) \<or> (28 \<le> n \<and> n \<le> 32) \<or> n = 133 \<or> n = 160)"

definition py_strip :: "string \<Rightarrow> string" where
  "py_strip s = rev (dropWhile is_space (rev (dropWhile is_space s)))"

text \<open>\<^verbatim>\<open>str.lower\<close> on the Latin-1 range: the upper-case letters are \<^verbatim>\<open>A..Z\<close> and
  \<^verbatim>\<open>\xc0..\xde\<close> without the multiplication sign; lowering sets bit 5.\<close>

definition is_upper :: "char \<Rightarrow> bool" where
  "is_upper c \<longleftrightarrow> (let n = (of_char c :: nat) in
     (65 \<le> n \<and> n \<le> 90) \<or> (192 \<le> n \<and> n \<le> 222 \<and> n \<noteq> 215))"

definition py_lower_char :: "char \<Rightarrow> char" where
  "py_lower_char c = (if is_upper c
     then (case c of Char b0 b1 b2 b3 b4 b5 b6 b7 \<Rightarrow> Char b0 b1 b2 b3 b4 True b6 b7)
     else c)"

definition py_lower :: "string \<Rightarrow> string" where
  "py_lower s = map py_lower_char s"

text \<open>\<^verbatim>\<open>needle in hay\<close> for strings.\<close>

fun py_in :: "string \<Rightarrow> string \<Rightarrow> bool" where
  "py_in needle [] = (needle = [])"
| "py_in needle (c # cs) = (take (length needle) (c # cs) = needle \<or> py_in needle cs)"

subsection \<open>The built-in \<^verbatim>\<open>float\<close> on strings\<close>

text \<open>
  Python reads a float from a string by the grammar
  \<^verbatim>\<open>[sign] (digitpart ["." [digitpart]] | "." digitpart) [("e"|"E") [sign] digitpart]\<close>
  between optional white space, where \<^verbatim>\<open>digitpart\<close> is \<^verbatim>\<open>digit (["_"] digit)*\<close>; any
  other string raises \<^verbatim>\<open>ValueError\<close>, here \<open>None\<close>. The three names of the non-finite
  floats are outside the model and read as \<open>None\<close> as well.
\<close>

fun digitpart :: "string \<Rightarrow> bool" where
  "digitpart [] = False"
| "digitpart [c] = is_digit c"
| "digitpart (c # d # r) =
     (is_digit c \<and> (if d = CHR ''_'' then digitpart r else digitpart (d # r)))"

definition digits_value :: "string \<Rightarrow> nat" where
  "digits_value s = foldl (\<lambda>a c. 10 * a + digit_val c) 0 (filter is_digit s)"

definition number_value :: "string \<Rightarrow> rat option" where
  "number_value s =
     (let ip = takeWhile (\<lambda>c. c \<noteq> CHR ''.'') s;
          rest = dropWhile (\<lambda>c. c \<noteq> CHR ''.'') s
      in case rest of
           [] \<Rightarrow> if digitpart ip then Some (of_nat (digits_value ip)) else None
         | _ # fp \<Rightarrow>
             if fp = [] then (if digitpart ip then Some (of_nat (digits_value ip)) else None)
             else if (ip = [] \<or> digitpart ip) \<and> digitpart fp
             then Some (of_nat (digits_value ip)
                        + of_nat (digits_value fp) / 10 ^ length (filter is_digit fp))
             else None)"

definition is_exp_mark :: "char \<Rightarrow> bool" where
  "is_exp_mark c \<longleftrightarrow> c = CHR ''e'' \<or> c = CHR ''E''"

definition exponent_value :: "string \<Rightarrow> int option" where
  "exponent_value s =
     (case s of
        [] \<Rightarrow> None
      | c # r \<Rightarrow>
          if c = CHR ''-'' then (if digitpart r then Some (- int (digits_value r)) else None)
          else if c = CHR ''+'' then (if digitpart r then Some (int (digits_value r)) else None)
          else if digitpart s then Some (int (digits_value s)) else None)"

definition scale10 :: "rat \<Rightarrow> int \<Rightarrow> rat" where
  "scale10 m e = (if 0 \<le> e then m * 10 ^ nat e else m / 10 ^ nat (- e))"

definition floatnumber :: "string \<Rightarrow> rat option" where
  "floatnumber s =
     (let mant = takeWhile (\<lambda>c. \<not> is_exp_mark c) s;
          rest = dropWhile (\<lambda>c. \<not> is_exp_mark c) s
      in case rest of
           [] \<Rightarrow> number_value mant
         | _ # ex \<Rightarrow>
             (case number_value mant of
                None \<Rightarrow> None
              | Some m \<Rightarrow>
                  (case exponent_value ex of None \<Rightarrow> None | Some e \<Rightarrow> Some (scale10 m e))))"

definition py_float :: "string \<Rightarrow> rat option" where
  "py_float s =
     (case py_strip s of
        [] \<Rightarrow> None
      | c # r \<Rightarrow>
          if c = CHR ''-'' then map_option uminus (floatnumber r)
          else if c = CHR ''+'' then floatnumber r
          else floatnumber (c # r))"

section \<open>Guardrails: \<^verbatim>\<open>validation_tools.py\<close>\<close>

subsection \<open>Regular expressions, as far as the validators use them\<close>

text \<open>
  The identifier validator is reached by the text the user typed, which may hold any
  Unicode character, so its argument is the list of the string's code points.
\<close>

type_synonym ustring = "nat list"

definition code_points :: "string \<Rightarrow> ustring" where
  "code_points s = map of_char s"

text \<open>
  On a \<^verbatim>\<open>str\<close> pattern, \<^verbatim>\<open>\d\<close> matches every Unicode decimal digit: the ten ASCII digits
  and, beyond ASCII, the characters that the Unicode database of the interpreter puts in
  the category Nd. That table belongs to the interpreter, not to the repository; it is the
  parameter \<open>nd\<close>, a predicate on the code points above 127.
\<close>

definition re_digit :: "(nat \<Rightarrow> bool) \<Rightarrow> nat \<Rightarrow> bool" where
  "re_digit nd c \<longleftrightarrow> (48 \<le> c \<and> c \<le> 57) \<or> (127 < c \<and> nd c)"

text \<open>
  The validator calls \<^verbatim>\<open>re.match\<close> with a pattern made of \<^verbatim>\<open>^\<close>, literal characters,
  \<^verbatim>\<open>\d\<close> (a counted repetition is written out) and \<^verbatim>\<open>$\<close>. \<^verbatim>\<open>re.match\<close> anchors at the
  start of the string and accepts any rest after the pattern; without the MULTILINE flag
  \<^verbatim>\<open>^\<close> holds at position 0 only, and \<^verbatim>\<open>$\<close> holds at the end of the string and also just
  before a newline (code point 10) that is the string's last character.
\<close>

datatype re_item = Bol | Eol | Lit nat | Digit

fun re_items :: "(nat \<Rightarrow> bool) \<Rightarrow> re_item list \<Rightarrow> bool \<Rightarrow> ustring \<Rightarrow> bool" where
  "re_items nd [] at0 s = True"
| "re_items nd (Bol # p) at0 s = (at0 \<and> re_items nd p at0 s)"
| "re_items nd (Eol # p) at0 s = ((s = [] \<or> s = [10]) \<and> re_items nd p at0 s)"
| "re_items nd (Lit c # p) at0 s =
     (case s of [] \<Rightarrow> False | x # xs \<Rightarrow> x = c \<and> re_items nd p False xs)"
| "re_items nd (Digit # p) at0 s =
     (case s of [] \<Rightarrow> False | x # xs \<Rightarrow> re_digit nd x \<and> re_items nd p False xs)"

definition re_match :: "(nat \<Rightarrow> bool) \<Rightarrow> re_item list \<Rightarrow> ustring \<Rightarrow> bool" where
  "re_match nd p s = re_items nd p True s"

subsection \<open>\<^verbatim>\<open>validate_kra_pin\<close>\<close>

record pin_result =
  pin_valid :: bool
  pin_pin :: "ustring option"
  pin_error :: "string option"

text \<open>The pattern \<^verbatim>\<open>r'^A\d{9}P$'\<close>; the letters \<^verbatim>\<open>A\<close> and \<^verbatim>\<open>P\<close> are the code points 65
  and 80.\<close>

definition kra_pin_pattern :: "re_item list" where
  "kra_pin_pattern = [Bol, Lit 65] @ replicate 9 Digit @ [Lit 80, Eol]"

definition validate_kra_pin :: "(nat \<Rightarrow> bool) \<Rightarrow> ustring \<Rightarrow> pin_result" where
  "validate_kra_pin nd pin =
     (let is_valid = re_match nd kra_pin_pattern pin
      in \<lparr> pin_valid = is_valid,
           pin_pin = (if is_valid then Some pin else None),
           pin_error = (if is_valid then None
                        else Some ''Invalid KRA PIN format. Expected format: A#########P'') \<rparr>)"

subsection \<open>\<^verbatim>\<open>sanitize_financial_input\<close>\<close>

record amount_result =
  amount_valid :: bool
  amount_value :: "rat option"
  amount_error :: "string option"

text \<open>\<^verbatim>\<open>re.sub(r'[^\d.]', '', s)\<close> keeps the digits and the points; among 8-bit
  characters the digits are the ten ASCII digits.\<close>

definition strip_non_numeric :: "string \<Rightarrow> string" where
  "strip_non_numeric s = filter (\<lambda>c. is_digit c \<or> c = CHR ''.'') s"

definition sanitize_financial_input :: "string \<Rightarrow> amount_result" where
  "sanitize_financial_input amount =
     (let cleaned = strip_non_numeric amount
      in case py_float cleaned of
           None \<Rightarrow> \<lparr> amount_valid = False, amount_value = None,
                     amount_error = Some ''Invalid amount format'' \<rparr>
         | Some v \<Rightarrow>
             if v < 0
             then \<lparr> amount_valid = False, amount_value = None,
                    amount_error = Some ''Amount cannot be negative'' \<rparr>
             else \<lparr> amount_valid = True, amount_value = Some v, amount_error = None \<rparr>)"

section \<open>Collected answers\<close>

text \<open>
  The answers of a filing are a dictionary from section id to a dictionary from field
  name to value. A value is what the workflow stores: the text the user typed, or the
  amount \<^verbatim>\<open>sanitize_financial_input\<close> read from it.
\<close>

type_synonym answers = "string \<rightharpoonup> pyval"

type_synonym collected = "string \<rightharpoonup> answers"

definition dict_get :: "('k \<rightharpoonup> 'v) \<Rightarrow> 'k \<Rightarrow> 'v \<Rightarrow> 'v" where
  "dict_get m k d = (case m k of None \<Rightarrow> d | Some v \<Rightarrow> v)"

text \<open>\<^verbatim>\<open>collected_data.get(sec, {}).get(fld, 0)\<close>, the only way the engines read an answer.\<close>

definition answer :: "collected \<Rightarrow> string \<Rightarrow> string \<Rightarrow> pyval" where
  "answer cd sec fld = dict_get (dict_get cd sec Map.empty) fld (PyNum 0)"

text \<open>
  \<^verbatim>\<open>safe_float\<close> is defined twice, in \<^verbatim>\<open>it1_tools.py\<close> and in \<^verbatim>\<open>vat3_tools.py\<close>, with the
  same text; its parameter \<^verbatim>\<open>default\<close> is \<open>dflt\<close> here. A value that is neither \<^verbatim>\<open>None\<close>, a number nor a string gives the default; the
  model's values have no such case.
\<close>

definition safe_float :: "pyval \<Rightarrow> rat \<Rightarrow> rat" where
  "safe_float v dflt =
     (case v of
        PyNone \<Rightarrow> dflt
      | PyNum x \<Rightarrow> x
      | PyStr s \<Rightarrow>
          (let value = py_strip s
           in if py_lower value \<in> set [''no'', ''yes'', [], ''n'', ''y''] then dflt
              else (case py_float value of Some x \<Rightarrow> x | None \<Rightarrow> dflt)))"

section \<open>The income-tax engine: \<^verbatim>\<open>IT1FilingTools.section_t_tax_computation\<close>\<close>

record computation =
  total_income :: rat
  taxable_income :: rat
  tax_payable :: rat
  tax_after_reliefs :: rat
  total_credits :: rat
  final_tax_due_or_refund :: rat
  status :: string

definition section_t_tax_computation :: "collected \<Rightarrow> computation" where
  "section_t_tax_computation collected_data =
     (let total_income = 0
            + safe_float (answer collected_data ''F'' ''gross_pay'') 0
            + safe_float (answer collected_data ''F'' ''allowances'') 0
            + safe_float (answer collected_data ''F'' ''car_benefit_value'') 0
            + safe_float (answer collected_data ''F'' ''housing_value'') 0
            + safe_float (answer collected_data ''F2'' ''gross_amount'') 0
            + safe_float (answer collected_data ''H'' ''estate_income_amount'') 0;
          pension_deduction = safe_float (answer collected_data ''F'' ''pension_excess'') 0;
          mortgage_interest = safe_float (answer collected_data ''J'' ''interest_paid'') 0;
          hosp_deposit = min (safe_float (answer collected_data ''K'' ''hosp_deposit'') 0) 96000;
          relief_deduction = max mortgage_interest hosp_deposit;
          taxable_income = total_income - pension_deduction - relief_deduction;
          tax_payable =
            (if taxable_income \<le> 288000 then taxable_income * 0.10
             else if taxable_income \<le> 388000
               then 288000 * 0.10 + (taxable_income - 288000) * 0.25
             else 288000 * 0.10 + 100000 * 0.25 + (taxable_income - 388000) * 0.30);
          personal_relief = 28800;
          insurance_relief =
            min (safe_float (answer collected_data ''L'' ''insurance_relief'') 0) 60000;
          tax_after_reliefs = max (tax_payable - personal_relief - insurance_relief) 0;
          total_credits = 0
            + safe_float (answer collected_data ''M'' ''paye_deducted'') 0
            + safe_float (answer collected_data ''N'' ''amount_paid'') 0
            + safe_float (answer collected_data ''O'' ''wht_amount'') 0
            + safe_float (answer collected_data ''P'' ''advance_tax_paid'') 0
            + safe_float (answer collected_data ''Q'' ''amount_paid'') 0
            + safe_float (answer collected_data ''R'' ''dtaa_relief_amount'') 0;
          final_amount = tax_after_reliefs - total_credits
      in \<lparr> total_income = total_income,
           taxable_income = taxable_income,
           tax_payable = tax_payable,
           tax_after_reliefs = tax_after_reliefs,
           total_credits = total_credits,
           final_tax_due_or_refund = final_amount,
           status = (if final_amount > 0 then ''TAX_DUE'' else ''REFUND_DUE'') \<rparr>)"

section \<open>The VAT engine: \<^verbatim>\<open>VAT3FilingTools\<close>, sections M, N and O\<close>

record sales_summary =
  taxable_sales :: rat
  zero_rated_sales :: rat
  exempt_sales :: rat
  total_sales :: rat
  output_vat_16 :: rat
  output_vat_8 :: rat
  total_output_vat :: rat

record purchase_summary =
  taxable_purchases :: rat
  zero_rated_purchases :: rat
  exempt_purchases :: rat
  total_purchases :: rat
  input_vat_16 :: rat
  input_vat_8 :: rat
  total_input_vat :: rat

record calculation =
  output_vat :: rat
  input_vat :: rat
  imported_services_vat :: rat
  non_deductible_input_vat :: rat
  deductible_input_vat :: rat
  vat_payable_credit :: rat
  credit_brought_forward :: rat
  wht_credits :: rat
  vat_paid :: rat
  net_vat_payable_credit :: rat
  vat_status :: string

definition section_m_sales_summary :: "collected \<Rightarrow> sales_summary" where
  "section_m_sales_summary collected_data =
     (let vat_b_value = safe_float (answer collected_data ''VAT_B'' ''taxable_value'') 0;
          vat_c_value = safe_float (answer collected_data ''VAT_C'' ''taxable_value'') 0;
          vat_d_local = safe_float (answer collected_data ''VAT_D'' ''local_value'') 0;
          vat_d_export = safe_float (answer collected_data ''VAT_D'' ''export_value'') 0;
          vat_e_value = safe_float (answer collected_data ''VAT_E'' ''exempt_sales_value'') 0;
          taxable_sales = vat_b_value + vat_c_value;
          zero_rated_sales = vat_d_local + vat_d_export;
          exempt_sales = vat_e_value;
          total_sales = taxable_sales + zero_rated_sales + exempt_sales;
          output_vat_16 = vat_b_value * 0.16;
          output_vat_8 = vat_c_value * 0.08;
          total_output_vat = output_vat_16 + output_vat_8
      in \<lparr> taxable_sales = taxable_sales,
           zero_rated_sales = zero_rated_sales,
           exempt_sales = exempt_sales,
           total_sales = total_sales,
           output_vat_16 = output_vat_16,
           output_vat_8 = output_vat_8,
           total_output_vat = total_output_vat \<rparr>)"

definition section_n_purchase_summary :: "collected \<Rightarrow> purchase_summary" where
  "section_n_purchase_summary collected_data =
     (let vat_f_value = safe_float (answer collected_data ''VAT_F'' ''taxable_value'') 0;
          vat_g_value = safe_float (answer collected_data ''VAT_G'' ''taxable_value'') 0;
          vat_h_value = safe_float (answer collected_data ''VAT_H'' ''taxable_value'') 0;
          vat_i_registered =
            safe_float (answer collected_data ''VAT_I'' ''registered_purchases'') 0;
          vat_i_import = safe_float (answer collected_data ''VAT_I'' ''import_purchases'') 0;
          vat_i_no_vat = safe_float (answer collected_data ''VAT_I'' ''no_vat_purchases'') 0;
          taxable_purchases = vat_f_value + vat_g_value;
          zero_rated_purchases = vat_h_value;
          exempt_purchases = vat_i_registered + vat_i_import + vat_i_no_vat;
          total_purchases = taxable_purchases + zero_rated_purchases + exempt_purchases;
          input_vat_16 = vat_f_value * 0.16;
          input_vat_8 = vat_g_value * 0.08;
          total_input_vat = input_vat_16 + input_vat_8
      in \<lparr> taxable_purchases = taxable_purchases,
           zero_rated_purchases = zero_rated_purchases,
           exempt_purchases = exempt_purchases,
           total_purchases = total_purchases,
           input_vat_16 = input_vat_16,
           input_vat_8 = input_vat_8,
           total_input_vat = total_input_vat \<rparr>)"

definition section_o_calculation :: "collected \<Rightarrow> calculation" where
  "section_o_calculation collected_data =
     (let sales = section_m_sales_summary collected_data;
          purchases = section_n_purchase_summary collected_data;
          output_vat = total_output_vat sales;
          input_vat = total_input_vat purchases;
          imported_services_vat =
            safe_float (answer collected_data ''VAT_J'' ''vat_claimable'') 0;
          total_sales = total_sales sales;
          exempt_sales = exempt_sales sales;
          non_deductible_input_vat =
            (if total_sales > 0 then input_vat * (exempt_sales / total_sales) else 0);
          deductible_input_vat = input_vat - non_deductible_input_vat + imported_services_vat;
          vat_payable_credit = output_vat - deductible_input_vat;
          credit_brought_forward = 0;
          wht_credits = safe_float (answer collected_data ''VAT_L'' ''vat_withheld'') 0;
          advance_payment =
            safe_float (answer collected_data ''VAT_K'' ''advance_payment_amount'') 0;
          self_assessment =
            safe_float (answer collected_data ''VAT_K'' ''self_assessment_amount'') 0;
          credit_adjustment =
            safe_float (answer collected_data ''VAT_K'' ''credit_adjustment_amount'') 0;
          vat_paid = advance_payment + self_assessment + credit_adjustment;
          net_vat = vat_payable_credit + credit_brought_forward - wht_credits - vat_paid
      in \<lparr> output_vat = output_vat,
           input_vat = input_vat,
           imported_services_vat = imported_services_vat,
           non_deductible_input_vat = non_deductible_input_vat,
           deductible_input_vat = deductible_input_vat,
           vat_payable_credit = vat_payable_credit,
           credit_brought_forward = credit_brought_forward,
           wht_credits = wht_credits,
           vat_paid = vat_paid,
           net_vat_payable_credit = net_vat,
           vat_status = (if net_vat > 0 then ''VAT_PAYABLE'' else ''CREDIT_CARRIED_FORWARD'') \<rparr>)"

section \<open>The store: \<^verbatim>\<open>db_manager.py\<close>\<close>

text \<open>
  The SQLite schema is not part of the sources, so the six truth-data tables are taken as
  they are read: for each table, the rows its \<^verbatim>\<open>SELECT ... WHERE kra_pin = ?\<close> returns for a
  taxpayer, in the order the query gives them, with the columns the callers read. The two
  tables the audit path writes, \<^verbatim>\<open>access_logs\<close> and \<^verbatim>\<open>audit_cases\<close>, are lists that an
  \<^verbatim>\<open>INSERT\<close> extends; columns the schema fills by default (id, status, timestamps) are not
  shown. Queries are taken to succeed.
\<close>

record bank_txn =
  bank_amount :: rat
  bank_type :: string
  bank_balance :: rat

record mpesa_txn =
  mpesa_amount :: rat
  mpesa_transaction_type :: string

record vehicle_asset =
  vehicle_make :: string
  vehicle_model :: string
  vehicle_estimated_value :: rat

record property_asset =
  property_location :: string
  property_type :: string
  property_estimated_value :: rat

record import_record =
  import_value :: rat

record telco_row =
  monthly_bill :: rat

record access_log =
  log_kra_pin :: string
  log_table_name :: string
  log_action :: string
  log_user_role :: string
  log_session_id :: "string option"
  log_ip_address :: string

text \<open>The human-readable reason of an audit case is a list of formatted sentences joined by
  \<^verbatim>\<open>" | "\<close>; the model keeps what each sentence reports, not its number formatting.\<close>

datatype reason_part =
    IncomeDiscrepancy rat
  | DeclaredInferred rat rat
  | BankInflows rat
  | MpesaReceipts rat
  | OwnsVehicles int rat
  | OwnsProperties int rat
  | ImportRecords rat

datatype reason = ReasonText string | ReasonParts "reason_part list"

record audit_case =
  case_kra_pin :: string
  case_risk_score :: int
  case_risk_level :: string
  case_reason :: reason
  case_declared_income :: rat
  case_inferred_income :: rat
  case_discrepancy_amount :: rat

record db =
  bank_transactions :: "string \<Rightarrow> bank_txn list"
  mpesa_transactions :: "string \<Rightarrow> mpesa_txn list"
  vehicle_assets :: "string \<Rightarrow> vehicle_asset list"
  property_assets :: "string \<Rightarrow> property_asset list"
  import_records :: "string \<Rightarrow> import_record list"
  telco_usage :: "string \<Rightarrow> telco_row list"
  access_logs :: "access_log list"
  audit_cases :: "audit_case list"

definition log_access :: "db \<Rightarrow> string \<Rightarrow> string \<Rightarrow> string \<Rightarrow> string \<Rightarrow> db" where
  "log_access d kra_pin table_name action user_role =
     d\<lparr> access_logs := access_logs d @
          [\<lparr> log_kra_pin = kra_pin, log_table_name = table_name, log_action = action,
             log_user_role = user_role, log_session_id = None,
             log_ip_address = ''localhost'' \<rparr>] \<rparr>"

definition get_bank_transactions :: "db \<Rightarrow> string \<Rightarrow> db \<times> bank_txn list" where
  "get_bank_transactions d kra_pin =
     (log_access d kra_pin ''bank_transactions'' ''READ'' ''SYSTEM'', bank_transactions d kra_pin)"

definition get_mpesa_transactions :: "db \<Rightarrow> string \<Rightarrow> db \<times> mpesa_txn list" where
  "get_mpesa_transactions d kra_pin =
     (log_access d kra_pin ''mpesa_transactions'' ''READ'' ''SYSTEM'', mpesa_transactions d kra_pin)"

definition get_vehicle_assets :: "db \<Rightarrow> string \<Rightarrow> db \<times> vehicle_asset list" where
  "get_vehicle_assets d kra_pin =
     (log_access d kra_pin ''vehicle_assets'' ''READ'' ''SYSTEM'', vehicle_assets d kra_pin)"

definition get_property_assets :: "db \<Rightarrow> string \<Rightarrow> db \<times> property_asset list" where
  "get_property_assets d kra_pin =
     (log_access d kra_pin ''property_assets'' ''READ'' ''SYSTEM'', property_assets d kra_pin)"

definition get_import_records :: "db \<Rightarrow> string \<Rightarrow> db \<times> import_record list" where
  "get_import_records d kra_pin =
     (log_access d kra_pin ''import_records'' ''READ'' ''SYSTEM'', import_records d kra_pin)"

definition get_telco_usage :: "db \<Rightarrow> string \<Rightarrow> db \<times> telco_row list" where
  "get_telco_usage d kra_pin =
     (log_access d kra_pin ''telco_usage'' ''READ'' ''SYSTEM'', telco_usage d kra_pin)"

definition create_audit_case ::
  "db \<Rightarrow> string \<Rightarrow> int \<Rightarrow> string \<Rightarrow> reason \<Rightarrow> rat \<Rightarrow> rat \<Rightarrow> db" where
  "create_audit_case d kra_pin risk_score risk_level reason declared_income inferred_income =
     (let discrepancy = inferred_income - declared_income;
          d1 = d\<lparr> audit_cases := audit_cases d @
                 [\<lparr> case_kra_pin = kra_pin, case_risk_score = risk_score,
                    case_risk_level = risk_level, case_reason = reason,
                    case_declared_income = declared_income,
                    case_inferred_income = inferred_income,
                    case_discrepancy_amount = discrepancy \<rparr>] \<rparr>
      in log_access d1 kra_pin ''audit_cases'' ''WRITE'' ''SYSTEM'')"

section \<open>The truth-data aggregator: \<^verbatim>\<open>truth_data_tools.py\<close>\<close>

text \<open>Each summary is the dictionary its fetch function returns; a key that only the
  branch with data sets is an optional field.\<close>

record bank_data =
  bank_kra_pin :: string
  total_inflows :: rat
  bank_transaction_count :: int
  bank_has_data :: bool
  latest_balance :: "rat option"

record mpesa_data =
  mpesa_kra_pin :: string
  total_received :: rat
  mpesa_transaction_count :: int
  mpesa_has_data :: bool

record vehicle_data =
  vehicle_kra_pin :: string
  vehicle_count :: int
  vehicle_total_value :: rat
  vehicle_has_data :: bool
  vehicles_list :: "(string \<times> string \<times> rat) list option"

record property_data =
  property_kra_pin :: string
  property_count :: int
  property_total_value :: rat
  property_has_data :: bool
  properties_list :: "(string \<times> string \<times> rat) list option"

record import_data =
  import_kra_pin :: string
  import_count :: int
  import_total_value :: rat
  import_has_data :: bool

record telco_data =
  telco_kra_pin :: string
  telco_has_data :: bool
  months_tracked :: "int option"
  total_bills :: "rat option"

record wealth_profile =
  profile_kra_pin :: string
  bank :: bank_data
  mpesa :: mpesa_data
  vehicles :: vehicle_data
  properties :: property_data
  imports' :: import_data
  telco :: telco_data
  has_any_data :: bool

definition fetch_bank_data :: "db \<Rightarrow> string \<Rightarrow> db \<times> bank_data" where
  "fetch_bank_data d kra_pin =
     (let (d1, transactions) = get_bank_transactions d kra_pin
      in if transactions = []
         then (d1, \<lparr> bank_kra_pin = kra_pin, total_inflows = 0, bank_transaction_count = 0,
                     bank_has_data = False, latest_balance = None \<rparr>)
         else (d1, \<lparr> bank_kra_pin = kra_pin,
                     total_inflows =
                       sum_list (map bank_amount
                         (filter (\<lambda>t. bank_type t = ''CREDIT'') transactions)),
                     bank_transaction_count = int (length transactions),
                     bank_has_data = True,
                     latest_balance = Some (bank_balance (last transactions)) \<rparr>))"

definition fetch_mpesa_data :: "db \<Rightarrow> string \<Rightarrow> db \<times> mpesa_data" where
  "fetch_mpesa_data d kra_pin =
     (let (d1, transactions) = get_mpesa_transactions d kra_pin
      in if transactions = []
         then (d1, \<lparr> mpesa_kra_pin = kra_pin, total_received = 0,
                     mpesa_transaction_count = 0, mpesa_has_data = False \<rparr>)
         else (d1, \<lparr> mpesa_kra_pin = kra_pin,
                     total_received =
                       sum_list (map mpesa_amount
                         (filter (\<lambda>t. mpesa_transaction_type t = ''RECEIVE'') transactions)),
                     mpesa_transaction_count = int (length transactions),
                     mpesa_has_data = True \<rparr>))"

definition fetch_vehicle_data :: "db \<Rightarrow> string \<Rightarrow> db \<times> vehicle_data" where
  "fetch_vehicle_data d kra_pin =
     (let (d1, vs) = get_vehicle_assets d kra_pin
      in if vs = []
         then (d1, \<lparr> vehicle_kra_pin = kra_pin, vehicle_count = 0, vehicle_total_value = 0,
                     vehicle_has_data = False, vehicles_list = None \<rparr>)
         else (d1, \<lparr> vehicle_kra_pin = kra_pin,
                     vehicle_count = int (length vs),
                     vehicle_total_value = sum_list (map vehicle_estimated_value vs),
                     vehicle_has_data = True,
                     vehicles_list = Some (map (\<lambda>v. (vehicle_make v, vehicle_model v,
                                                     vehicle_estimated_value v)) vs) \<rparr>))"

definition fetch_property_data :: "db \<Rightarrow> string \<Rightarrow> db \<times> property_data" where
  "fetch_property_data d kra_pin =
     (let (d1, ps) = get_property_assets d kra_pin
      in if ps = []
         then (d1, \<lparr> property_kra_pin = kra_pin, property_count = 0,
                     property_total_value = 0, property_has_data = False,
                     properties_list = None \<rparr>)
         else (d1, \<lparr> property_kra_pin = kra_pin,
                     property_count = int (length ps),
                     property_total_value = sum_list (map property_estimated_value ps),
                     property_has_data = True,
                     properties_list = Some (map (\<lambda>p. (property_location p, property_type p,
                                                       property_estimated_value p)) ps) \<rparr>))"

definition fetch_import_data :: "db \<Rightarrow> string \<Rightarrow> db \<times> import_data" where
  "fetch_import_data d kra_pin =
     (let (d1, recs) = get_import_records d kra_pin
      in if recs = []
         then (d1, \<lparr> import_kra_pin = kra_pin, import_count = 0, import_total_value = 0,
                     import_has_data = False \<rparr>)
         else (d1, \<lparr> import_kra_pin = kra_pin,
                     import_count = int (length recs),
                     import_total_value = sum_list (map import_value recs),
                     import_has_data = True \<rparr>))"

definition fetch_telco_data :: "db \<Rightarrow> string \<Rightarrow> db \<times> telco_data" where
  "fetch_telco_data d kra_pin =
     (let (d1, usage) = get_telco_usage d kra_pin
      in if usage = []
         then (d1, \<lparr> telco_kra_pin = kra_pin, telco_has_data = False,
                     months_tracked = None, total_bills = None \<rparr>)
         else (d1, \<lparr> telco_kra_pin = kra_pin, telco_has_data = True,
                     months_tracked = Some (int (length usage)),
                     total_bills = Some (sum_list (map monthly_bill usage)) \<rparr>))"

definition build_wealth_profile :: "db \<Rightarrow> string \<Rightarrow> db \<times> wealth_profile" where
  "build_wealth_profile d kra_pin =
     (let (d1, bank_data) = fetch_bank_data d kra_pin;
          (d2, mpesa_data) = fetch_mpesa_data d1 kra_pin;
          (d3, vehicle_data) = fetch_vehicle_data d2 kra_pin;
          (d4, property_data) = fetch_property_data d3 kra_pin;
          (d5, import_data) = fetch_import_data d4 kra_pin;
          (d6, telco_data) = fetch_telco_data d5 kra_pin
      in (d6, \<lparr> profile_kra_pin = kra_pin,
                 bank = bank_data,
                 mpesa = mpesa_data,
                 vehicles = vehicle_data,
                 properties = property_data,
                 imports' = import_data,
                 telco = telco_data,
                 has_any_data =
                   list_ex (\<lambda>b. b)
                     [bank_has_data bank_data, mpesa_has_data mpesa_data,
                      vehicle_has_data vehicle_data, property_has_data property_data,
                      import_has_data import_data, telco_has_data telco_data] \<rparr>))"

section \<open>The audit risk engine: \<^verbatim>\<open>risk_analysis_tools.py\<close>\<close>

text \<open>Python's true division raises on a zero divisor.\<close>

definition py_truediv :: "rat \<Rightarrow> rat \<Rightarrow> py_error + rat" where
  "py_truediv a b = (if b = 0 then Inl ZeroDivisionError else Inr (a / b))"

definition calculate_inferred_income :: "wealth_profile \<Rightarrow> rat" where
  "calculate_inferred_income wp =
     (let inferred = 0;
          inferred = (if bank_has_data (bank wp) then inferred + total_inflows (bank wp)
                      else inferred);
          inferred = (if mpesa_has_data (mpesa wp) then inferred + total_received (mpesa wp)
                      else inferred)
      in inferred)"

record discrepancy =
  d_declared_income :: rat
  d_inferred_income :: rat
  discrepancy_amount :: rat
  discrepancy_percentage :: rat
  has_discrepancy :: bool

definition detect_discrepancy :: "rat \<Rightarrow> rat \<Rightarrow> py_error + discrepancy" where
  "detect_discrepancy declared inferred =
     (let discrepancy = inferred - declared
      in case (if declared > 0
               then (case py_truediv discrepancy declared of
                       Inl e \<Rightarrow> Inl e
                     | Inr q \<Rightarrow> Inr (q * 100))
               else Inr 100) of
           Inl e \<Rightarrow> Inl e
         | Inr percentage \<Rightarrow>
             Inr \<lparr> d_declared_income = declared,
                   d_inferred_income = inferred,
                   discrepancy_amount = discrepancy,
                   discrepancy_percentage = percentage,
                   has_discrepancy = (discrepancy > 0) \<rparr>)"

definition calculate_risk_score :: "rat \<Rightarrow> rat \<Rightarrow> wealth_profile \<Rightarrow> py_error + int" where
  "calculate_risk_score declared inferred assets =
     (let score = 0
      in case (if declared > 0
               then (case py_truediv (inferred - declared) declared of
                       Inl e \<Rightarrow> Inl e
                     | Inr q \<Rightarrow> Inr (q * 100))
               else Inr 100) of
           Inl e \<Rightarrow> Inl e
         | Inr percentage \<Rightarrow>
            (let score =
                   (if percentage > 200 then score + 40
                    else if percentage > 100 then score + 30
                    else if percentage > 50 then score + 20
                    else if percentage > 20 then score + 10
                    else score);
                 score =
                   (if vehicle_has_data (vehicles assets)
                    then (let vehicle_count = vehicle_count (vehicles assets);
                              vehicle_value = vehicle_total_value (vehicles assets)
                          in if vehicle_value > 20000000 then score + 25
                             else if vehicle_value > 10000000 then score + 15
                             else if vehicle_count \<ge> 2 then score + 10
                             else score)
                    else score);
                 score =
                   (if property_has_data (properties assets)
                    then (let property_count = property_count (properties assets);
                              property_value = property_total_value (properties assets)
                          in if property_value > 50000000 then score + 25
                             else if property_value > 20000000 then score + 15
                             else if property_count \<ge> 3 then score + 10
                             else score)
                    else score);
                 score =
                   (if import_has_data (imports' assets)
                    then (let import_value = import_total_value (imports' assets)
                          in if import_value > 5000000 then score + 15 else score)
                    else score);
                 score = (if declared = 0 \<and> inferred > 1000000 then score + 20 else score)
             in Inr (min score 100)))"

definition determine_risk_level :: "int \<Rightarrow> string" where
  "determine_risk_level score =
     (if score \<ge> 61 then ''HIGH'' else if score \<ge> 31 then ''MEDIUM'' else ''LOW'')"

definition generate_audit_reason :: "rat \<Rightarrow> rat \<Rightarrow> rat \<Rightarrow> wealth_profile \<Rightarrow> reason" where
  "generate_audit_reason declared inferred discrepancy assets =
     ReasonParts
       ((if discrepancy > 0
         then [IncomeDiscrepancy discrepancy, DeclaredInferred declared inferred] else [])
        @ (if bank_has_data (bank assets) then [BankInflows (total_inflows (bank assets))] else [])
        @ (if mpesa_has_data (mpesa assets)
           then [MpesaReceipts (total_received (mpesa assets))] else [])
        @ (if vehicle_has_data (vehicles assets)
           then [OwnsVehicles (vehicle_count (vehicles assets))
                   (vehicle_total_value (vehicles assets))] else [])
        @ (if property_has_data (properties assets)
           then [OwnsProperties (property_count (properties assets))
                   (property_total_value (properties assets))] else [])
        @ (if import_has_data (imports' assets)
           then [ImportRecords (import_total_value (imports' assets))] else []))"

text \<open>The dictionary \<^verbatim>\<open>run_full_risk_analysis\<close> returns; the keys that only the scored
  branch sets are optional fields.\<close>

record analysis =
  a_kra_pin :: string
  a_risk_level :: string
  a_risk_score :: int
  a_reason :: reason
  a_audit_case_created :: "bool option"
  a_declared_income :: "rat option"
  a_inferred_income :: "rat option"
  a_discrepancy_amount :: "rat option"
  a_assets :: "wealth_profile option"

text \<open>Reading a key the dictionary does not hold raises \<^verbatim>\<open>KeyError\<close>.\<close>

definition subscript :: "'a option \<Rightarrow> py_error + 'a" where
  "subscript v = (case v of None \<Rightarrow> Inl KeyError | Some x \<Rightarrow> Inr x)"

definition create_audit_case_if_risky :: "db \<Rightarrow> string \<Rightarrow> analysis \<Rightarrow> py_error + (db \<times> bool)" where
  "create_audit_case_if_risky d kra_pin analysis =
     (let risk_level = a_risk_level analysis
      in if risk_level = ''HIGH''
         then (case subscript (a_declared_income analysis) of
                 Inl e \<Rightarrow> Inl e
               | Inr declared_income \<Rightarrow>
                   (case subscript (a_inferred_income analysis) of
                      Inl e \<Rightarrow> Inl e
                    | Inr inferred_income \<Rightarrow>
                        Inr (create_audit_case d kra_pin (a_risk_score analysis) risk_level
                               (a_reason analysis) declared_income inferred_income, True)))
         else Inr (d, False))"

definition run_full_risk_analysis :: "db \<Rightarrow> string \<Rightarrow> rat \<Rightarrow> py_error + (db \<times> analysis)" where
  "run_full_risk_analysis d kra_pin declared_income =
     (let (d1, wealth_profile) = build_wealth_profile d kra_pin
      in if \<not> has_any_data wealth_profile
         then Inr (d1, \<lparr> a_kra_pin = kra_pin,
                         a_risk_level = ''LOW'',
                         a_risk_score = 0,
                         a_reason = ReasonText ''No external data available for verification'',
                         a_audit_case_created = Some False,
                         a_declared_income = None,
                         a_inferred_income = None,
                         a_discrepancy_amount = None,
                         a_assets = None \<rparr>)
         else
           (let inferred_income = calculate_inferred_income wealth_profile
            in case detect_discrepancy declared_income inferred_income of
                 Inl e \<Rightarrow> Inl e
               | Inr discrepancy_analysis \<Rightarrow>
                   (case calculate_risk_score declared_income inferred_income wealth_profile of
                      Inl e \<Rightarrow> Inl e
                    | Inr risk_score \<Rightarrow>
                        (let risk_level = determine_risk_level risk_score;
                             analysis =
                               \<lparr> a_kra_pin = kra_pin,
                                 a_risk_level = risk_level,
                                 a_risk_score = risk_score,
                                 a_reason =
                                   generate_audit_reason declared_income inferred_income
                                     (discrepancy_amount discrepancy_analysis) wealth_profile,
                                 a_audit_case_created = None,
                                 a_declared_income = Some declared_income,
                                 a_inferred_income = Some inferred_income,
                                 a_discrepancy_amount =
                                   Some (discrepancy_amount discrepancy_analysis),
                                 a_assets = Some wealth_profile \<rparr>
                         in case create_audit_case_if_risky d1 kra_pin analysis of
                              Inl e \<Rightarrow> Inl e
                            | Inr (d2, audit_case_created) \<Rightarrow>
                                Inr (d2, analysis\<lparr> a_audit_case_created :=
                                                     Some audit_case_created \<rparr>)))))"

section \<open>The form schemas: \<^verbatim>\<open>it1_tools.py\<close> and \<^verbatim>\<open>vat3_tools.py\<close>\<close>

text \<open>
  A section is the dictionary its method returns: the section id, the questions always
  asked, and the conditional questions, a dictionary from a trigger field to a dictionary
  from a trigger value to questions (both kept in the order written). The descriptive
  key \<^verbatim>\<open>computation\<close> of four VAT sections is read nowhere and left out.
\<close>

record question =
  q_id :: string
  q_text :: string
  q_field :: string

record section_def =
  sec_name :: string
  questions :: "question list"
  conditional_questions :: "(string \<times> (string \<times> question list) list) list"
  trigger_condition :: "string option"

subsection \<open>The income-tax form: the sections of \<^verbatim>\<open>IT1FilingTools\<close>\<close>

definition section_a_part1 :: section_def where
  "section_a_part1 =
     \<lparr> sec_name = ''A_PART1'',
       questions =
         [\<lparr> q_id = ''q1'', q_text = ''What is your KRA PIN?'', q_field = ''kra_pin'' \<rparr>,
          \<lparr> q_id = ''q2'', q_text = ''Type of return? (Original/Amended)'', q_field = ''return_type'' \<rparr>,
          \<lparr> q_id = ''q3'', q_text = ''Return period from? (YYYY-MM-DD)'', q_field = ''period_from'' \<rparr>,
          \<lparr> q_id = ''q4'', q_text = ''Return period to? (YYYY-MM-DD)'', q_field = ''period_to'' \<rparr>,
          \<lparr> q_id = ''q5'', q_text = ''Do you have income other than employment? (Yes/No)'', q_field = ''has_other_income'' \<rparr>,
          \<lparr> q_id = ''q6'', q_text = ''Do you have partnership income? (Yes/No)'', q_field = ''has_partnership_income'' \<rparr>,
          \<lparr> q_id = ''q7'', q_text = ''Has employer provided car? (Yes/No)'', q_field = ''has_car_benefit'' \<rparr>,
          \<lparr> q_id = ''q8'', q_text = ''Do you have a mortgage? (Yes/No)'', q_field = ''has_mortgage'' \<rparr>,
          \<lparr> q_id = ''q9'', q_text = ''Do you have insurance policy? (Yes/No)'', q_field = ''has_insurance'' \<rparr>,
          \<lparr> q_id = ''q10'', q_text = ''Do you earn foreign income? (Yes/No)'', q_field = ''has_foreign_income'' \<rparr>,
          \<lparr> q_id = ''q11'', q_text = ''Do you have disability exemption certificate? (Yes/No)'', q_field = ''has_disability'' \<rparr>,
          \<lparr> q_id = ''q12'', q_text = ''Do you want to declare spouse's income? (Yes/No)'', q_field = ''declare_spouse_income'' \<rparr>],
       conditional_questions =
         [],
       trigger_condition = None \<rparr>"

definition section_a_part2 :: section_def where
  "section_a_part2 =
     \<lparr> sec_name = ''A_PART2'',
       questions =
         [\<lparr> q_id = ''q1'', q_text = ''Bank name?'', q_field = ''bank_name'' \<rparr>,
          \<lparr> q_id = ''q2'', q_text = ''Branch name?'', q_field = ''branch_name'' \<rparr>,
          \<lparr> q_id = ''q3'', q_text = ''City?'', q_field = ''city'' \<rparr>,
          \<lparr> q_id = ''q4'', q_text = ''Account holder's name?'', q_field = ''account_holder_name'' \<rparr>,
          \<lparr> q_id = ''q5'', q_text = ''Account number?'', q_field = ''account_number'' \<rparr>],
       conditional_questions =
         [],
       trigger_condition = None \<rparr>"

definition section_a_part3 :: section_def where
  "section_a_part3 =
     \<lparr> sec_name = ''A_PART3'',
       questions =
         [\<lparr> q_id = ''q1'', q_text = ''Is this return audited? (Yes/No)'', q_field = ''is_audited'' \<rparr>],
       conditional_questions =
         [(''is_audited'',
          [(''Yes'',
            [\<lparr> q_id = ''q2'', q_text = ''PIN of auditor?'', q_field = ''auditor_pin'' \<rparr>,
             \<lparr> q_id = ''q3'', q_text = ''Name of auditor?'', q_field = ''auditor_name'' \<rparr>,
             \<lparr> q_id = ''q4'', q_text = ''Date of audit certificate? (YYYY-MM-DD)'', q_field = ''audit_date'' \<rparr>])])],
       trigger_condition = None \<rparr>"

definition section_a_part4 :: section_def where
  "section_a_part4 =
     \<lparr> sec_name = ''A_PART4'',
       questions =
         [\<lparr> q_id = ''q1'', q_text = ''PIN of landlord (if available)?'', q_field = ''landlord_pin'' \<rparr>,
          \<lparr> q_id = ''q2'', q_text = ''Name of landlord?'', q_field = ''landlord_name'' \<rparr>,
          \<lparr> q_id = ''q3'', q_text = ''LR Number?'', q_field = ''lr_number'' \<rparr>,
          \<lparr> q_id = ''q4'', q_text = ''Building name?'', q_field = ''building_name'' \<rparr>,
          \<lparr> q_id = ''q5'', q_text = ''Street/Road?'', q_field = ''street'' \<rparr>,
          \<lparr> q_id = ''q6'', q_text = ''City/Town?'', q_field = ''city'' \<rparr>,
          \<lparr> q_id = ''q7'', q_text = ''County?'', q_field = ''county'' \<rparr>,
          \<lparr> q_id = ''q8'', q_text = ''District?'', q_field = ''district'' \<rparr>,
          \<lparr> q_id = ''q9'', q_text = ''Postal address?'', q_field = ''postal_address'' \<rparr>,
          \<lparr> q_id = ''q10'', q_text = ''Period of occupancy from? (YYYY-MM-DD)'', q_field = ''occupancy_from'' \<rparr>,
          \<lparr> q_id = ''q11'', q_text = ''Period of occupancy to? (YYYY-MM-DD)'', q_field = ''occupancy_to'' \<rparr>,
          \<lparr> q_id = ''q12'', q_text = ''Amount of gross rent paid (KES)?'', q_field = ''rent_paid'' \<rparr>],
       conditional_questions =
         [],
       trigger_condition = Some ''has_rental_expense'' \<rparr>"

definition section_a_part5 :: section_def where
  "section_a_part5 =
     \<lparr> sec_name = ''A_PART5'',
       questions =
         [\<lparr> q_id = ''q1'', q_text = ''PIN of tenant (if available)?'', q_field = ''tenant_pin'' \<rparr>,
          \<lparr> q_id = ''q2'', q_text = ''Name of tenant?'', q_field = ''tenant_name'' \<rparr>,
          \<lparr> q_id = ''q3'', q_text = ''Property LR Number?'', q_field = ''property_lr_number'' \<rparr>,
          \<lparr> q_id = ''q4'', q_text = ''Building name?'', q_field = ''building_name'' \<rparr>,
          \<lparr> q_id = ''q5'', q_text = ''Street/Road?'', q_field = ''street'' \<rparr>,
          \<lparr> q_id = ''q6'', q_text = ''City/Town?'', q_field = ''city'' \<rparr>,
          \<lparr> q_id = ''q7'', q_text = ''County?'', q_field = ''county'' \<rparr>,
          \<lparr> q_id = ''q8'', q_text = ''District?'', q_field = ''district'' \<rparr>,
          \<lparr> q_id = ''q9'', q_text = ''Postal address?'', q_field = ''postal_address'' \<rparr>,
          \<lparr> q_id = ''q10'', q_text = ''Period of occupancy from? (YYYY-MM-DD)'', q_field = ''occupancy_from'' \<rparr>,
          \<lparr> q_id = ''q11'', q_text = ''Period of occupancy to? (YYYY-MM-DD)'', q_field = ''occupancy_to'' \<rparr>,
          \<lparr> q_id = ''q12'', q_text = ''Amount of gross rental income (KES)?'', q_field = ''rental_income'' \<rparr>],
       conditional_questions =
         [],
       trigger_condition = Some ''has_rental_income'' \<rparr>"

definition section_a_part6 :: section_def where
  "section_a_part6 =
     \<lparr> sec_name = ''A_PART6'',
       questions =
         [\<lparr> q_id = ''q1'', q_text = ''Exemption certificate number?'', q_field = ''certificate_number'' \<rparr>,
          \<lparr> q_id = ''q2'', q_text = ''Valid from date? (YYYY-MM-DD)'', q_field = ''valid_from'' \<rparr>,
          \<lparr> q_id = ''q3'', q_text = ''Valid to date? (YYYY-MM-DD)'', q_field = ''valid_to'' \<rparr>],
       conditional_questions =
         [],
       trigger_condition = Some ''has_disability'' \<rparr>"

definition section_f_employment_income :: section_def where
  "section_f_employment_income =
     \<lparr> sec_name = ''F'',
       questions =
         [\<lparr> q_id = ''q1'', q_text = ''Do you have employment income? (Yes/No)'', q_field = ''has_employment_income'' \<rparr>],
       conditional_questions =
         [(''has_employment_income'',
          [(''Yes'',
            [\<lparr> q_id = ''q2'', q_text = ''PIN of employer?'', q_field = ''employer_pin'' \<rparr>,
             \<lparr> q_id = ''q3'', q_text = ''Name of employer?'', q_field = ''employer_name'' \<rparr>,
             \<lparr> q_id = ''q4'', q_text = ''Gross pay (KES)?'', q_field = ''gross_pay'' \<rparr>,
             \<lparr> q_id = ''q5'', q_text = ''Allowances and benefits (excluding car/housing) (KES)?'', q_field = ''allowances'' \<rparr>,
             \<lparr> q_id = ''q6'', q_text = ''Value of car benefit (KES)?'', q_field = ''car_benefit_value'' \<rparr>,
             \<lparr> q_id = ''q7'', q_text = ''Net value of housing (KES)?'', q_field = ''housing_value'' \<rparr>,
             \<lparr> q_id = ''q8'', q_text = ''Pension if in excess of 300,000 (KES)?'', q_field = ''pension_excess'' \<rparr>])])],
       trigger_condition = None \<rparr>"

definition section_f2_other_income :: section_def where
  "section_f2_other_income =
     \<lparr> sec_name = ''F2'',
       questions =
         [\<lparr> q_id = ''q1'', q_text = ''Do you have any of these? (Lumpsum/Gratuity/Pension/Arrears/Qualifying Interest/Dividends/Others) (Yes/No)'', q_field = ''has_other_income_types'' \<rparr>],
       conditional_questions =
         [(''has_other_income_types'',
          [(''Yes'',
            [\<lparr> q_id = ''q2'', q_text = ''Gross amount (KES)?'', q_field = ''gross_amount'' \<rparr>,
             \<lparr> q_id = ''q3'', q_text = ''Tax deducted (KES)?'', q_field = ''tax_deducted'' \<rparr>])])],
       trigger_condition = None \<rparr>"

definition section_h_estate_trust :: section_def where
  "section_h_estate_trust =
     \<lparr> sec_name = ''H'',
       questions =
         [\<lparr> q_id = ''q1'', q_text = ''Do you receive income from estate/trust/settlement? (Yes/No)'', q_field = ''has_estate_income'' \<rparr>],
       conditional_questions =
         [(''has_estate_income'',
          [(''Yes'',
            [\<lparr> q_id = ''q2'', q_text = ''Amount of share of income (KES)?'', q_field = ''estate_income_amount'' \<rparr>])])],
       trigger_condition = None \<rparr>"

definition section_j_mortgage :: section_def where
  "section_j_mortgage =
     \<lparr> sec_name = ''J'',
       questions =
         [\<lparr> q_id = ''q1'', q_text = ''Lender name?'', q_field = ''lender_name'' \<rparr>,
          \<lparr> q_id = ''q2'', q_text = ''Amount of interest paid during year (KES)?'', q_field = ''interest_paid'' \<rparr>],
       conditional_questions =
         [],
       trigger_condition = Some ''has_mortgage'' \<rparr>"

definition section_k_hosp :: section_def where
  "section_k_hosp =
     \<lparr> sec_name = ''K'',
       questions =
         [\<lparr> q_id = ''q1'', q_text = ''Do you have HOSP? (Yes/No)'', q_field = ''has_hosp'' \<rparr>],
       conditional_questions =
         [(''has_hosp'',
          [(''Yes'',
            [\<lparr> q_id = ''q2'', q_text = ''Name of HOSP institution?'', q_field = ''hosp_institution'' \<rparr>,
             \<lparr> q_id = ''q3'', q_text = ''Total deposit for the year (KES)? (Max 96,000)'', q_field = ''hosp_deposit'' \<rparr>])])],
       trigger_condition = None \<rparr>"

definition section_l_insurance :: section_def where
  "section_l_insurance =
     \<lparr> sec_name = ''L'',
       questions =
         [\<lparr> q_id = ''q1'', q_text = ''Insurance company name?'', q_field = ''insurance_company'' \<rparr>,
          \<lparr> q_id = ''q2'', q_text = ''Premium paid (KES)?'', q_field = ''premium_paid'' \<rparr>,
          \<lparr> q_id = ''q3'', q_text = ''Amount of insurance relief? (Max 60,000)'', q_field = ''insurance_relief'' \<rparr>],
       conditional_questions =
         [],
       trigger_condition = Some ''has_insurance'' \<rparr>"

definition section_m_paye :: section_def where
  "section_m_paye =
     \<lparr> sec_name = ''M'',
       questions =
         [\<lparr> q_id = ''q1'', q_text = ''PIN of employer?'', q_field = ''employer_pin'' \<rparr>,
          \<lparr> q_id = ''q2'', q_text = ''Name of employer?'', q_field = ''employer_name'' \<rparr>,
          \<lparr> q_id = ''q3'', q_text = ''Taxable salary (KES)?'', q_field = ''taxable_salary'' \<rparr>,
          \<lparr> q_id = ''q4'', q_text = ''Tax payable on taxable salary (KES)?'', q_field = ''tax_payable'' \<rparr>,
          \<lparr> q_id = ''q5'', q_text = ''Amount of PAYE deducted (KES)?'', q_field = ''paye_deducted'' \<rparr>],
       conditional_questions =
         [],
       trigger_condition = Some ''has_employment_income'' \<rparr>"

definition section_n_installment_tax :: section_def where
  "section_n_installment_tax =
     \<lparr> sec_name = ''N'',
       questions =
         [\<lparr> q_id = ''q1'', q_text = ''Did you pay installment tax? (Yes/No)'', q_field = ''paid_installment_tax'' \<rparr>],
       conditional_questions =
         [(''paid_installment_tax'',
          [(''Yes'',
            [\<lparr> q_id = ''q2'', q_text = ''Payment registration number?'', q_field = ''payment_reg_number'' \<rparr>,
             \<lparr> q_id = ''q3'', q_text = ''Date of payment? (YYYY-MM-DD)'', q_field = ''payment_date'' \<rparr>,
             \<lparr> q_id = ''q4'', q_text = ''Amount paid (KES)?'', q_field = ''amount_paid'' \<rparr>])])],
       trigger_condition = None \<rparr>"

definition section_o_wht :: section_def where
  "section_o_wht =
     \<lparr> sec_name = ''O'',
       questions =
         [\<lparr> q_id = ''q1'', q_text = ''Do you have withholding tax credits? (Yes/No)'', q_field = ''has_wht_credits'' \<rparr>],
       conditional_questions =
         [(''has_wht_credits'',
          [(''Yes'',
            [\<lparr> q_id = ''q2'', q_text = ''PIN of withholder?'', q_field = ''withholder_pin'' \<rparr>,
             \<lparr> q_id = ''q3'', q_text = ''Name of withholder?'', q_field = ''withholder_name'' \<rparr>,
             \<lparr> q_id = ''q4'', q_text = ''WHT certificate number?'', q_field = ''wht_cert_number'' \<rparr>,
             \<lparr> q_id = ''q5'', q_text = ''Date of certificate? (YYYY-MM-DD)'', q_field = ''cert_date'' \<rparr>,
             \<lparr> q_id = ''q6'', q_text = ''Amount of WHT (KES)?'', q_field = ''wht_amount'' \<rparr>])])],
       trigger_condition = None \<rparr>"

definition section_p_advance_tax :: section_def where
  "section_p_advance_tax =
     \<lparr> sec_name = ''P'',
       questions =
         [\<lparr> q_id = ''q1'', q_text = ''Do you have commercial vehicle? (Yes/No)'', q_field = ''has_commercial_vehicle'' \<rparr>],
       conditional_questions =
         [(''has_commercial_vehicle'',
          [(''Yes'',
            [\<lparr> q_id = ''q2'', q_text = ''Vehicle registration number?'', q_field = ''vehicle_reg_number'' \<rparr>,
             \<lparr> q_id = ''q3'', q_text = ''Amount of advance tax paid (KES)?'', q_field = ''advance_tax_paid'' \<rparr>,
             \<lparr> q_id = ''q4'', q_text = ''Payment date? (YYYY-MM-DD)'', q_field = ''payment_date'' \<rparr>])])],
       trigger_condition = None \<rparr>"

definition section_q_income_tax_paid :: section_def where
  "section_q_income_tax_paid =
     \<lparr> sec_name = ''Q'',
       questions =
         [\<lparr> q_id = ''q1'', q_text = ''Did you pay income tax in advance? (Yes/No)'', q_field = ''paid_income_tax_advance'' \<rparr>],
       conditional_questions =
         [(''paid_income_tax_advance'',
          [(''Yes'',
            [\<lparr> q_id = ''q2'', q_text = ''Payment registration number?'', q_field = ''payment_reg_number'' \<rparr>,
             \<lparr> q_id = ''q3'', q_text = ''Date of deposit? (YYYY-MM-DD)'', q_field = ''deposit_date'' \<rparr>,
             \<lparr> q_id = ''q4'', q_text = ''Amount paid (KES)?'', q_field = ''amount_paid'' \<rparr>])])],
       trigger_condition = None \<rparr>"

definition section_r_dtaa :: section_def where
  "section_r_dtaa =
     \<lparr> sec_name = ''R'',
       questions =
         [\<lparr> q_id = ''q1'', q_text = ''Country of foreign income?'', q_field = ''foreign_country'' \<rparr>,
          \<lparr> q_id = ''q2'', q_text = ''Amount of tax relief under DTAA (KES)?'', q_field = ''dtaa_relief_amount'' \<rparr>],
       conditional_questions =
         [],
       trigger_condition = Some ''has_foreign_income'' \<rparr>"

subsection \<open>The VAT form: the sections of \<^verbatim>\<open>VAT3FilingTools\<close>\<close>

definition section_a_info :: section_def where
  "section_a_info =
     \<lparr> sec_name = ''VAT_A'',
       questions =
         [\<lparr> q_id = ''q1'', q_text = ''What is your KRA PIN?'', q_field = ''kra_pin'' \<rparr>,
          \<lparr> q_id = ''q2'', q_text = ''Type of return? (Original/Amended)'', q_field = ''return_type'' \<rparr>,
          \<lparr> q_id = ''q3'', q_text = ''Entity type? (Head Office/Branch)'', q_field = ''entity_type'' \<rparr>,
          \<lparr> q_id = ''q4'', q_text = ''Return period from? (YYYY-MM-DD)'', q_field = ''period_from'' \<rparr>,
          \<lparr> q_id = ''q5'', q_text = ''Return period to? (YYYY-MM-DD)'', q_field = ''period_to'' \<rparr>,
          \<lparr> q_id = ''q6'', q_text = ''Are you non-resident with no fixed place in Kenya? (Yes/No)'', q_field = ''non_resident'' \<rparr>],
       conditional_questions =
         [],
       trigger_condition = None \<rparr>"

definition section_b_general_sales :: section_def where
  "section_b_general_sales =
     \<lparr> sec_name = ''VAT_B'',
       questions =
         [\<lparr> q_id = ''q1'', q_text = ''Do you have taxable sales at 16% rate? (Yes/No)'', q_field = ''has_16_sales'' \<rparr>],
       conditional_questions =
         [(''has_16_sales'',
          [(''Yes'',
            [\<lparr> q_id = ''q2'', q_text = ''Total sales to VAT-registered customers (KES)?'', q_field = ''sales_registered'' \<rparr>,
             \<lparr> q_id = ''q3'', q_text = ''Total sales to non-registered customers (KES)?'', q_field = ''sales_non_registered'' \<rparr>,
             \<lparr> q_id = ''q4'', q_text = ''Taxable value (KES)?'', q_field = ''taxable_value'' \<rparr>])])],
       trigger_condition = None \<rparr>"

definition section_c_other_sales :: section_def where
  "section_c_other_sales =
     \<lparr> sec_name = ''VAT_C'',
       questions =
         [\<lparr> q_id = ''q1'', q_text = ''Do you have taxable sales at 8% rate? (Yes/No)'', q_field = ''has_8_sales'' \<rparr>],
       conditional_questions =
         [(''has_8_sales'',
          [(''Yes'',
            [\<lparr> q_id = ''q2'', q_text = ''Total sales to VAT-registered customers (KES)?'', q_field = ''sales_registered'' \<rparr>,
             \<lparr> q_id = ''q3'', q_text = ''Total sales to non-registered customers (KES)?'', q_field = ''sales_non_registered'' \<rparr>,
             \<lparr> q_id = ''q4'', q_text = ''Taxable value (KES)?'', q_field = ''taxable_value'' \<rparr>])])],
       trigger_condition = None \<rparr>"

definition section_d_zero_rated :: section_def where
  "section_d_zero_rated =
     \<lparr> sec_name = ''VAT_D'',
       questions =
         [\<lparr> q_id = ''q1'', q_text = ''Do you have zero-rated sales? (Yes/No)'', q_field = ''has_zero_rated_sales'' \<rparr>],
       conditional_questions =
         [(''has_zero_rated_sales'',
          [(''Yes'',
            [\<lparr> q_id = ''q2'', q_text = ''Type of sales? (Category A/B/D/F)'', q_field = ''category'' \<rparr>,
             \<lparr> q_id = ''q3'', q_text = ''Exemption certificate number? (if applicable)'', q_field = ''exemption_cert'' \<rparr>,
             \<lparr> q_id = ''q4'', q_text = ''Taxable value for local/exemption (KES)?'', q_field = ''local_value'' \<rparr>,
             \<lparr> q_id = ''q5'', q_text = ''Custom entry number? (for exports)'', q_field = ''customs_entry'' \<rparr>,
             \<lparr> q_id = ''q6'', q_text = ''Port of exit? (for exports)'', q_field = ''port_exit'' \<rparr>,
             \<lparr> q_id = ''q7'', q_text = ''Destination country? (for exports)'', q_field = ''destination'' \<rparr>,
             \<lparr> q_id = ''q8'', q_text = ''Taxable value for exports (KES)?'', q_field = ''export_value'' \<rparr>])])],
       trigger_condition = None \<rparr>"

definition section_e_exempt :: section_def where
  "section_e_exempt =
     \<lparr> sec_name = ''VAT_E'',
       questions =
         [\<lparr> q_id = ''q1'', q_text = ''Do you have exempt sales? (Yes/No)'', q_field = ''has_exempt_sales'' \<rparr>],
       conditional_questions =
         [(''has_exempt_sales'',
          [(''Yes'',
            [\<lparr> q_id = ''q2'', q_text = ''Sales value (KES)?'', q_field = ''exempt_sales_value'' \<rparr>])])],
       trigger_condition = None \<rparr>"

definition section_f_general_purchases :: section_def where
  "section_f_general_purchases =
     \<lparr> sec_name = ''VAT_F'',
       questions =
         [\<lparr> q_id = ''q1'', q_text = ''Do you have purchases at 16% rate? (Yes/No)'', q_field = ''has_16_purchases'' \<rparr>],
       conditional_questions =
         [(''has_16_purchases'',
          [(''Yes'',
            [\<lparr> q_id = ''q2'', q_text = ''Total purchases from VAT-registered suppliers (local) (KES)?'', q_field = ''local_purchases'' \<rparr>,
             \<lparr> q_id = ''q3'', q_text = ''Total purchases from imports (KES)?'', q_field = ''import_purchases'' \<rparr>,
             \<lparr> q_id = ''q4'', q_text = ''Taxable value (KES)?'', q_field = ''taxable_value'' \<rparr>])])],
       trigger_condition = None \<rparr>"

definition section_g_other_purchases :: section_def where
  "section_g_other_purchases =
     \<lparr> sec_name = ''VAT_G'',
       questions =
         [\<lparr> q_id = ''q1'', q_text = ''Do you have purchases at 8% rate? (Yes/No)'', q_field = ''has_8_purchases'' \<rparr>],
       conditional_questions =
         [(''has_8_purchases'',
          [(''Yes'',
            [\<lparr> q_id = ''q2'', q_text = ''Total purchases from VAT-registered suppliers (KES)?'', q_field = ''local_purchases'' \<rparr>,
             \<lparr> q_id = ''q3'', q_text = ''Total purchases from imports (KES)?'', q_field = ''import_purchases'' \<rparr>,
             \<lparr> q_id = ''q4'', q_text = ''Taxable value (KES)?'', q_field = ''taxable_value'' \<rparr>])])],
       trigger_condition = None \<rparr>"

definition section_h_zero_rated_purchases :: section_def where
  "section_h_zero_rated_purchases =
     \<lparr> sec_name = ''VAT_H'',
       questions =
         [\<lparr> q_id = ''q1'', q_text = ''Do you have zero-rated purchases? (Yes/No)'', q_field = ''has_zero_rated_purchases'' \<rparr>],
       conditional_questions =
         [(''has_zero_rated_purchases'',
          [(''Yes'',
            [\<lparr> q_id = ''q2'', q_text = ''Total purchases from registered suppliers (KES)?'', q_field = ''local_purchases'' \<rparr>,
             \<lparr> q_id = ''q3'', q_text = ''Total purchases from imports (KES)?'', q_field = ''import_purchases'' \<rparr>,
             \<lparr> q_id = ''q4'', q_text = ''Taxable value (KES)?'', q_field = ''taxable_value'' \<rparr>])])],
       trigger_condition = None \<rparr>"

definition section_i_exempt_purchases :: section_def where
  "section_i_exempt_purchases =
     \<lparr> sec_name = ''VAT_I'',
       questions =
         [\<lparr> q_id = ''q1'', q_text = ''Do you have exempt purchases? (Yes/No)'', q_field = ''has_exempt_purchases'' \<rparr>],
       conditional_questions =
         [(''has_exempt_purchases'',
          [(''Yes'',
            [\<lparr> q_id = ''q2'', q_text = ''Total from registered suppliers (KES)?'', q_field = ''registered_purchases'' \<rparr>,
             \<lparr> q_id = ''q3'', q_text = ''Total from imports (KES)?'', q_field = ''import_purchases'' \<rparr>,
             \<lparr> q_id = ''q4'', q_text = ''Total where VAT not incurred (KES)?'', q_field = ''no_vat_purchases'' \<rparr>])])],
       trigger_condition = None \<rparr>"

definition section_j_imported_services :: section_def where
  "section_j_imported_services =
     \<lparr> sec_name = ''VAT_J'',
       questions =
         [\<lparr> q_id = ''q1'', q_text = ''Do you import services from abroad? (Yes/No)'', q_field = ''has_imported_services'' \<rparr>],
       conditional_questions =
         [(''has_imported_services'',
          [(''Yes'',
            [\<lparr> q_id = ''q2'', q_text = ''Name of supplier?'', q_field = ''supplier_name'' \<rparr>,
             \<lparr> q_id = ''q3'', q_text = ''Description of services?'', q_field = ''service_description'' \<rparr>,
             \<lparr> q_id = ''q4'', q_text = ''Transaction date? (YYYY-MM-DD)'', q_field = ''transaction_date'' \<rparr>,
             \<lparr> q_id = ''q5'', q_text = ''Amount of VAT claimable (KES)?'', q_field = ''vat_claimable'' \<rparr>])])],
       trigger_condition = None \<rparr>"

definition section_k_vat_paid :: section_def where
  "section_k_vat_paid =
     \<lparr> sec_name = ''VAT_K'',
       questions =
         [\<lparr> q_id = ''q1'', q_text = ''Did you pay VAT in advance? (Yes/No)'', q_field = ''paid_vat_advance'' \<rparr>],
       conditional_questions =
         [(''paid_vat_advance'',
          [(''Yes'',
            [\<lparr> q_id = ''q2'', q_text = ''K1 - Advance Payment registration number?'', q_field = ''advance_payment_reg'' \<rparr>,
             \<lparr> q_id = ''q3'', q_text = ''K1 - Date of deposit? (YYYY-MM-DD)'', q_field = ''advance_payment_date'' \<rparr>,
             \<lparr> q_id = ''q4'', q_text = ''K1 - Amount (KES)?'', q_field = ''advance_payment_amount'' \<rparr>,
             \<lparr> q_id = ''q5'', q_text = ''K2 - Self Assessment registration number?'', q_field = ''self_assessment_reg'' \<rparr>,
             \<lparr> q_id = ''q6'', q_text = ''K2 - Date of deposit? (YYYY-MM-DD)'', q_field = ''self_assessment_date'' \<rparr>,
             \<lparr> q_id = ''q7'', q_text = ''K2 - Amount (KES)?'', q_field = ''self_assessment_amount'' \<rparr>,
             \<lparr> q_id = ''q8'', q_text = ''K3 - Credit Adjustment voucher/approval order number?'', q_field = ''credit_adjustment_voucher'' \<rparr>,
             \<lparr> q_id = ''q9'', q_text = ''K3 - Date?'', q_field = ''credit_adjustment_date'' \<rparr>,
             \<lparr> q_id = ''q10'', q_text = ''K3 - Amount (KES)?'', q_field = ''credit_adjustment_amount'' \<rparr>])])],
       trigger_condition = None \<rparr>"

definition section_l_wht :: section_def where
  "section_l_wht =
     \<lparr> sec_name = ''VAT_L'',
       questions =
         [\<lparr> q_id = ''q1'', q_text = ''Do you have withholding VAT certificates? (Yes/No)'', q_field = ''has_wht_vat'' \<rparr>],
       conditional_questions =
         [(''has_wht_vat'',
          [(''Yes'',
            [\<lparr> q_id = ''q2'', q_text = ''PIN of withholder?'', q_field = ''withholder_pin'' \<rparr>,
             \<lparr> q_id = ''q3'', q_text = ''Name of withholder?'', q_field = ''withholder_name'' \<rparr>,
             \<lparr> q_id = ''q4'', q_text = ''Certificate number?'', q_field = ''certificate_number'' \<rparr>,
             \<lparr> q_id = ''q5'', q_text = ''Date of certificate? (YYYY-MM-DD)'', q_field = ''certificate_date'' \<rparr>,
             \<lparr> q_id = ''q6'', q_text = ''Amount of VAT withheld (KES)?'', q_field = ''vat_withheld'' \<rparr>])])],
       trigger_condition = None \<rparr>"


section \<open>The filing workflow agent: \<^verbatim>\<open>filing_workflow_agent.py\<close>\<close>

subsection \<open>\<^verbatim>\<open>get_next_question\<close>\<close>

text \<open>The first loop: the first question whose field is not among the responses.\<close>

fun first_unanswered :: "question list \<Rightarrow> answers \<Rightarrow> question option" where
  "first_unanswered [] collected_responses = None"
| "first_unanswered (question # rest) collected_responses =
     (if collected_responses (q_field question) = None then Some question
      else first_unanswered rest collected_responses)"

text \<open>\<^verbatim>\<open>condition_value in conditions\<close> and \<^verbatim>\<open>conditions[condition_value]\<close>: the keys are
  strings, compared exactly; a stored number equals no key.\<close>

definition conditions_get :: "(string \<times> question list) list \<Rightarrow> pyval \<Rightarrow> question list option" where
  "conditions_get conditions condition_value =
     (case condition_value of PyStr s \<Rightarrow> map_of conditions s | _ \<Rightarrow> None)"

text \<open>The second loop, over the conditional questions.\<close>

fun scan_conditional ::
  "(string \<times> (string \<times> question list) list) list \<Rightarrow> answers \<Rightarrow> question option" where
  "scan_conditional [] collected_responses = None"
| "scan_conditional ((condition_field, conditions) # rest) collected_responses =
     (case collected_responses condition_field of
        None \<Rightarrow> scan_conditional rest collected_responses
      | Some condition_value \<Rightarrow>
          (case conditions_get conditions condition_value of
             None \<Rightarrow> scan_conditional rest collected_responses
           | Some qs \<Rightarrow>
               (case first_unanswered qs collected_responses of
                  Some question \<Rightarrow> Some question
                | None \<Rightarrow> scan_conditional rest collected_responses)))"

definition get_next_question :: "string \<Rightarrow> section_def \<Rightarrow> answers \<Rightarrow> question option" where
  "get_next_question section_name section_data collected_responses =
     (case first_unanswered (questions section_data) collected_responses of
        Some question \<Rightarrow> Some question
      | None \<Rightarrow> scan_conditional (conditional_questions section_data) collected_responses)"

subsection \<open>\<^verbatim>\<open>validate_date_input\<close> (from \<^verbatim>\<open>validation_tools.py\<close>) and \<^verbatim>\<open>validate_response\<close>\<close>

text \<open>An answer reaches the workflow as an 8-bit string here; among 8-bit characters the
  decimal digits are the ASCII digits, so the table of further digits is empty.\<close>

definition latin1_nd :: "nat \<Rightarrow> bool" where
  "latin1_nd c = False"

record date_result =
  date_valid :: bool
  date_date :: "string option"
  date_error :: "string option"

text \<open>\<^verbatim>\<open>str.split\<close> at one character, and the built-in \<^verbatim>\<open>int\<close> on a string: white space
  around, an optional sign, digits with single underscores between them; anything else
  raises \<^verbatim>\<open>ValueError\<close>, here \<open>None\<close>.\<close>

fun split_at :: "char \<Rightarrow> string \<Rightarrow> string \<Rightarrow> string list" where
  "split_at c acc [] = [rev acc]"
| "split_at c acc (x # xs) =
     (if x = c then rev acc # split_at c [] xs else split_at c (x # acc) xs)"

definition py_split :: "char \<Rightarrow> string \<Rightarrow> string list" where
  "py_split c s = split_at c [] s"

definition py_int :: "string \<Rightarrow> int option" where
  "py_int s =
     (case py_strip s of
        [] \<Rightarrow> None
      | c # r \<Rightarrow>
          if c = CHR ''-'' then (if digitpart r then Some (- int (digits_value r)) else None)
          else if c = CHR ''+'' then (if digitpart r then Some (int (digits_value r)) else None)
          else if digitpart (c # r) then Some (int (digits_value (c # r))) else None)"

text \<open>The pattern \<^verbatim>\<open>r'^\d{4}-\d{2}-\d{2}$'\<close>; the hyphen is the code point 45.\<close>

definition date_pattern :: "re_item list" where
  "date_pattern =
     [Bol] @ replicate 4 Digit @ [Lit 45] @ replicate 2 Digit @ [Lit 45] @ replicate 2 Digit
     @ [Eol]"

definition validate_date_input :: "string \<Rightarrow> date_result" where
  "validate_date_input date_string =
     (if \<not> re_match latin1_nd date_pattern (code_points date_string)
      then \<lparr> date_valid = False, date_date = None,
             date_error = Some ''Invalid date format. Expected YYYY-MM-DD'' \<rparr>
      else
        (case map py_int (py_split (CHR ''-'') date_string) of
           [Some year, Some month, Some day] \<Rightarrow>
             if \<not> (1900 \<le> year \<and> year \<le> 2100)
             then \<lparr> date_valid = False, date_date = None,
                    date_error = Some ''Year must be between 1900 and 2100'' \<rparr>
             else if \<not> (1 \<le> month \<and> month \<le> 12)
             then \<lparr> date_valid = False, date_date = None,
                    date_error = Some ''Month must be between 1 and 12'' \<rparr>
             else if \<not> (1 \<le> day \<and> day \<le> 31)
             then \<lparr> date_valid = False, date_date = None,
                    date_error = Some ''Day must be between 1 and 31'' \<rparr>
             else \<lparr> date_valid = True, date_date = Some date_string, date_error = None \<rparr>
         | _ \<Rightarrow> \<lparr> date_valid = False, date_date = None,
                  date_error = Some ''Invalid date values'' \<rparr>))"

text \<open>The dictionary \<^verbatim>\<open>validate_response\<close> returns is that of one of the three validators
  or \<^verbatim>\<open>{"valid": True, "value": response}\<close>.\<close>

datatype validation =
    PinResult pin_result
  | AmountResult amount_result
  | DateResult date_result
  | Accepted string

definition startswith :: "string \<Rightarrow> string \<Rightarrow> bool" where
  "startswith s prefix \<longleftrightarrow> take (length prefix) s = prefix"

definition validate_response :: "string \<Rightarrow> string \<Rightarrow> validation" where
  "validate_response field_name response =
     (let name = py_lower field_name
      in if py_in ''pin'' name \<and> field_name \<noteq> ''kra_pin'' then Accepted response
         else if field_name = ''kra_pin''
           then PinResult (validate_kra_pin latin1_nd (code_points response))
         else if list_ex (startswith name)
                   [''has_'', ''is_'', ''paid_'', ''declare_'', ''do_you_'', ''did_you_'']
           then Accepted response
         else if list_ex (\<lambda>keyword. py_in keyword name)
                   [''amount'', ''pay'', ''income'', ''value'', ''paid'', ''relief'', ''deposit'']
           then AmountResult (sanitize_financial_input response)
         else if py_in ''date'' name \<or> py_in ''from'' name \<or> py_in ''to'' name
           then DateResult (validate_date_input response)
         else Accepted response)"

text \<open>What the caller reads from the result: \<^verbatim>\<open>.get('valid', True)\<close>,
  \<^verbatim>\<open>.get('error', 'Invalid input')\<close> and \<^verbatim>\<open>.get('value', user_input)\<close>.\<close>

definition result_valid :: "validation \<Rightarrow> bool" where
  "result_valid v =
     (case v of PinResult r \<Rightarrow> pin_valid r | AmountResult r \<Rightarrow> amount_valid r
      | DateResult r \<Rightarrow> date_valid r | Accepted _ \<Rightarrow> True)"

definition result_error :: "validation \<Rightarrow> string option" where
  "result_error v =
     (case v of PinResult r \<Rightarrow> pin_error r | AmountResult r \<Rightarrow> amount_error r
      | DateResult r \<Rightarrow> date_error r | Accepted _ \<Rightarrow> Some ''Invalid input'')"

definition result_value :: "validation \<Rightarrow> string \<Rightarrow> pyval" where
  "result_value v user_input =
     (case v of
        PinResult r \<Rightarrow> PyStr user_input
      | AmountResult r \<Rightarrow> (case amount_value r of None \<Rightarrow> PyNone | Some x \<Rightarrow> PyNum x)
      | DateResult r \<Rightarrow> PyStr user_input
      | Accepted response \<Rightarrow> PyStr response)"

subsection \<open>The \<^verbatim>\<open>process_\<close> methods\<close>

text \<open>Each returns the section id, the section's schema and an opening message; the session
  id and the collected data they are given are not used.\<close>

record section_result =
  sr_section :: string
  sr_data :: section_def
  sr_message :: string

definition process_section_a_part1 :: section_result where
  "process_section_a_part1 =
     \<lparr> sr_section = ''A_PART1'',
       sr_data = section_a_part1,
       sr_message =
         ''Let's start filing your IT1 return. I'll ask you 12 questions about your return information.'' \<rparr>"

definition process_section_a_part2 :: section_result where
  "process_section_a_part2 =
     \<lparr> sr_section = ''A_PART2'',
       sr_data = section_a_part2,
       sr_message =
         ''Now let's capture your bank account details for refund or payment purposes.'' \<rparr>"

definition process_section_a_part3 :: section_result where
  "process_section_a_part3 =
     \<lparr> sr_section = ''A_PART3'',
       sr_data = section_a_part3,
       sr_message =
         ''Next, please confirm whether this return is audited. If yes, I'll ask for your auditor details.'' \<rparr>"

definition process_section_a_part6 :: section_result where
  "process_section_a_part6 =
     \<lparr> sr_section = ''A_PART6'',
       sr_data = section_a_part6,
       sr_message =
         ''Now let's capture your disability exemption certificate details.'' \<rparr>"

definition process_section_f :: section_result where
  "process_section_f =
     \<lparr> sr_section = ''F'',
       sr_data = section_f_employment_income,
       sr_message =
         ''Now let's collect your employment income information.'' \<rparr>"

definition process_section_f2_other_income :: section_result where
  "process_section_f2_other_income =
     \<lparr> sr_section = ''F2'',
       sr_data = section_f2_other_income,
       sr_message =
         ''Now let's check if you have any other income such as lumpsum, gratuity, pension arrears, or dividends.'' \<rparr>"

definition process_section_h_estate_trust :: section_result where
  "process_section_h_estate_trust =
     \<lparr> sr_section = ''H'',
       sr_data = section_h_estate_trust,
       sr_message =
         ''Now let's check if you receive any income from an estate, trust, or settlement.'' \<rparr>"

definition process_section_j_mortgage :: section_result where
  "process_section_j_mortgage =
     \<lparr> sr_section = ''J'',
       sr_data = section_j_mortgage,
       sr_message =
         ''Now let's collect your mortgage interest information.'' \<rparr>"

definition process_section_l_insurance :: section_result where
  "process_section_l_insurance =
     \<lparr> sr_section = ''L'',
       sr_data = section_l_insurance,
       sr_message =
         ''Now let's collect your insurance policy information.'' \<rparr>"

definition process_section_r_dtaa :: section_result where
  "process_section_r_dtaa =
     \<lparr> sr_section = ''R'',
       sr_data = section_r_dtaa,
       sr_message =
         ''Now let's collect your foreign income and DTAA information.'' \<rparr>"

definition process_section_k_hosp :: section_result where
  "process_section_k_hosp =
     \<lparr> sr_section = ''K'',
       sr_data = section_k_hosp,
       sr_message =
         ''Now let's capture any Home Ownership Savings Plan (HOSP) contributions you made.'' \<rparr>"

definition process_section_m_paye :: section_result where
  "process_section_m_paye =
     \<lparr> sr_section = ''M'',
       sr_data = section_m_paye,
       sr_message =
         ''Now let's capture PAYE details from your employment.'' \<rparr>"

definition process_section_n_installment_tax :: section_result where
  "process_section_n_installment_tax =
     \<lparr> sr_section = ''N'',
       sr_data = section_n_installment_tax,
       sr_message =
         ''Now let's record any installment tax payments you may have made.'' \<rparr>"

definition process_section_o_wht :: section_result where
  "process_section_o_wht =
     \<lparr> sr_section = ''O'',
       sr_data = section_o_wht,
       sr_message =
         ''Now let's capture any withholding tax (WHT) credits you have.'' \<rparr>"

definition process_section_p_advance_tax :: section_result where
  "process_section_p_advance_tax =
     \<lparr> sr_section = ''P'',
       sr_data = section_p_advance_tax,
       sr_message =
         ''Now let's capture any advance tax paid on commercial vehicles.'' \<rparr>"

definition process_section_q_income_tax_paid :: section_result where
  "process_section_q_income_tax_paid =
     \<lparr> sr_section = ''Q'',
       sr_data = section_q_income_tax_paid,
       sr_message =
         ''Finally, let's capture any income tax you paid in advance.'' \<rparr>"

definition process_vat3_section_a :: section_result where
  "process_vat3_section_a =
     \<lparr> sr_section = ''VAT_A'',
       sr_data = section_a_info,
       sr_message =
         ''Let's start filing your VAT3 return. I'll first collect your basic return information.'' \<rparr>"

definition process_vat3_section_b :: section_result where
  "process_vat3_section_b =
     \<lparr> sr_section = ''VAT_B'',
       sr_data = section_b_general_sales,
       sr_message =
         ''Now let's capture your taxable sales at the 16% VAT rate.'' \<rparr>"

definition process_vat3_section_c :: section_result where
  "process_vat3_section_c =
     \<lparr> sr_section = ''VAT_C'',
       sr_data = section_c_other_sales,
       sr_message =
         ''Now let's capture your taxable sales at the 8% VAT rate.'' \<rparr>"

definition process_vat3_section_d :: section_result where
  "process_vat3_section_d =
     \<lparr> sr_section = ''VAT_D'',
       sr_data = section_d_zero_rated,
       sr_message =
         ''Now let's capture your zero-rated sales information.'' \<rparr>"

definition process_vat3_section_e :: section_result where
  "process_vat3_section_e =
     \<lparr> sr_section = ''VAT_E'',
       sr_data = section_e_exempt,
       sr_message =
         ''Now let's capture your exempt sales information.'' \<rparr>"

definition process_vat3_section_f :: section_result where
  "process_vat3_section_f =
     \<lparr> sr_section = ''VAT_F'',
       sr_data = section_f_general_purchases,
       sr_message =
         ''Now let's capture your purchases at the 16% VAT rate.'' \<rparr>"

definition process_vat3_section_g :: section_result where
  "process_vat3_section_g =
     \<lparr> sr_section = ''VAT_G'',
       sr_data = section_g_other_purchases,
       sr_message =
         ''Now let's capture your purchases at the 8% VAT rate.'' \<rparr>"

definition process_vat3_section_h :: section_result where
  "process_vat3_section_h =
     \<lparr> sr_section = ''VAT_H'',
       sr_data = section_h_zero_rated_purchases,
       sr_message =
         ''Now let's capture your zero-rated purchases information.'' \<rparr>"

definition process_vat3_section_i :: section_result where
  "process_vat3_section_i =
     \<lparr> sr_section = ''VAT_I'',
       sr_data = section_i_exempt_purchases,
       sr_message =
         ''Now let's capture your exempt purchases information.'' \<rparr>"

definition process_vat3_section_j :: section_result where
  "process_vat3_section_j =
     \<lparr> sr_section = ''VAT_J'',
       sr_data = section_j_imported_services,
       sr_message =
         ''Now let's capture your imported services information.'' \<rparr>"

definition process_vat3_section_k :: section_result where
  "process_vat3_section_k =
     \<lparr> sr_section = ''VAT_K'',
       sr_data = section_k_vat_paid,
       sr_message =
         ''Now let's capture your VAT paid in advance information.'' \<rparr>"

definition process_vat3_section_l :: section_result where
  "process_vat3_section_l =
     \<lparr> sr_section = ''VAT_L'',
       sr_data = section_l_wht,
       sr_message =
         ''Now let's capture your withholding VAT certificates information.'' \<rparr>"


section \<open>The chat handler: \<^verbatim>\<open>main\<close> of \<^verbatim>\<open>chainlit_app.py\<close>\<close>

subsection \<open>\<^verbatim>\<open>detect_prompt_injection\<close> (from \<^verbatim>\<open>validation_tools.py\<close>)\<close>

text \<open>
  The six patterns are made of literal text, \<^verbatim>\<open>\s+\<close> and \<^verbatim>\<open>\s*\<close>; the alternation
  \<^verbatim>\<open>(previous|all|above)\<close> of the first is written out as three patterns. A message is an
  8-bit string, as for the validators. \<^verbatim>\<open>re.IGNORECASE\<close> compares lower-cased characters;
  the literals are in lower case. \<^verbatim>\<open>re.search\<close> tries every position.
\<close>

datatype pattern_item = Chars string | Space_plus | Space_star

fun match_here :: "pattern_item list \<Rightarrow> string \<Rightarrow> bool" where
  "match_here [] s = True"
| "match_here (Chars l # p) s =
     (py_lower (take (length l) s) = l \<and> match_here p (drop (length l) s))"
| "match_here (Space_plus # p) [] = False"
| "match_here (Space_plus # p) (c # r) = (is_space c \<and> match_here (Space_star # p) r)"
| "match_here (Space_star # p) [] = match_here p []"
| "match_here (Space_star # p) (c # r) =
     (match_here p (c # r) \<or> (is_space c \<and> match_here (Space_star # p) r))"

fun re_search :: "pattern_item list \<Rightarrow> string \<Rightarrow> bool" where
  "re_search p [] = match_here p []"
| "re_search p (c # r) = (match_here p (c # r) \<or> re_search p r)"

definition dangerous_patterns :: "pattern_item list list" where
  "dangerous_patterns =
     [[Chars ''ignore'', Space_plus, Chars ''previous'', Space_plus, Chars ''instructions''],
      [Chars ''ignore'', Space_plus, Chars ''all'', Space_plus, Chars ''instructions''],
      [Chars ''ignore'', Space_plus, Chars ''above'', Space_plus, Chars ''instructions''],
      [Chars ''system'', Space_star, Chars '':''],
      [Chars ''<|im_start|>''],
      [Chars ''admin'', Space_plus, Chars ''mode''],
      [Chars ''developer'', Space_plus, Chars ''override''],
      [Chars ''bypass'', Space_plus, Chars ''guardrail'']]"

record injection_check =
  safe :: bool
  threat_detected :: bool
  threat_message :: string

definition detect_prompt_injection :: "string \<Rightarrow> injection_check" where
  "detect_prompt_injection input =
     (if list_ex (\<lambda>pattern. re_search pattern input) dangerous_patterns
      then \<lparr> safe = False, threat_detected = True,
             threat_message = ''Potential prompt injection detected'' \<rparr>
      else \<lparr> safe = True, threat_detected = False,
             threat_message = ''Input appears safe'' \<rparr>)"

subsection \<open>The session, and what one call of the handler does\<close>

text \<open>
  The keys of \<^verbatim>\<open>cl.user_session\<close>. The record is the session of a filing that has been
  started: \<^verbatim>\<open>start\<close> leaves the section, its schema and its responses unset, and the
  branch that starts a filing sets them.
\<close>

record session =
  session_id :: string
  filing_started :: bool
  filing_type :: "string option"
  current_section :: string
  collected_data :: collected
  current_question_index :: int
  pending_sections :: "string list"
  current_section_data :: section_def
  section_responses :: answers

text \<open>
  What a call does besides changing the session: the messages it sends, the answer it
  saves in the table \<^verbatim>\<open>filings\<close>, the audit it starts. The pictographs that open some
  messages are left out of the texts. A numbered question is the text
  \<^verbatim>\<open>**Question n/12:**\<close> followed by the question; a summary is a text that prints amounts
  of the computation it is given.
\<close>

datatype effect =
    Message string
  | NumberedQuestion int string
  | TaxSummary computation
  | VatSummary calculation
  | SaveResponse pyval string string string pyval string
  | BackgroundAudit pyval rat

text \<open>
  A call returns, or raises with the session as the statements before the raise left it.
  \<open>Routed\<close> is the branch taken when no filing has started (lines 46 to 114): the
  router's answer, which is not followed here.
\<close>

datatype outcome =
    Routed
  | Returned session "effect list"
  | Raised py_error session "effect list"

definition preceded_by :: "effect list \<Rightarrow> outcome \<Rightarrow> outcome" where
  "preceded_by effects r =
     (case r of
        Routed \<Rightarrow> Routed
      | Returned s es \<Rightarrow> Returned s (effects @ es)
      | Raised e s es \<Rightarrow> Raised e s (effects @ es))"

text \<open>The sessions the two branches that start a filing leave (lines 21 to 28, 80 to 89 and
  96 to 105).\<close>

definition begin_it1 :: "string \<Rightarrow> session" where
  "begin_it1 sid =
     \<lparr> session_id = sid, filing_started = True, filing_type = Some ''IT1'',
       current_section = ''A_PART1'', collected_data = Map.empty,
       current_question_index = 0, pending_sections = [],
       current_section_data = sr_data process_section_a_part1,
       section_responses = Map.empty \<rparr>"

definition begin_vat3 :: "string \<Rightarrow> session" where
  "begin_vat3 sid =
     \<lparr> session_id = sid, filing_started = True, filing_type = Some ''VAT3'',
       current_section = ''VAT_A'', collected_data = Map.empty,
       current_question_index = 0, pending_sections = [],
       current_section_data = sr_data process_vat3_section_a,
       section_responses = Map.empty \<rparr>"

text \<open>
  The statements every transition ends with: store the schema, empty the responses, take
  \<^verbatim>\<open>section_data["questions"][0]\<close> and send three messages.
\<close>

definition open_section :: "session \<Rightarrow> section_result \<Rightarrow> string \<Rightarrow> outcome" where
  "open_section s section_result completed =
     (let section_data = sr_data section_result;
          s' = s\<lparr> current_section_data := section_data, section_responses := Map.empty \<rparr>
      in case questions section_data of
           [] \<Rightarrow> Raised IndexError s' []
         | first_question # _ \<Rightarrow>
             Returned s'
               [Message completed, Message (sr_message section_result),
                Message (q_text first_question)])"

text \<open>A transition as all but five are written: set the section and the index, then the
  statements above.\<close>

definition enter_section :: "session \<Rightarrow> string \<Rightarrow> section_result \<Rightarrow> string \<Rightarrow> outcome" where
  "enter_section s next_section section_result completed =
     open_section (s\<lparr> current_section := next_section, current_question_index := 0 \<rparr>)
       section_result completed"

text \<open>\<^verbatim>\<open>data.get(flag, "").strip().lower() == "yes"\<close>; a stored number has no \<^verbatim>\<open>strip\<close>.\<close>

definition flag_is_yes :: "answers \<Rightarrow> string \<Rightarrow> py_error + bool" where
  "flag_is_yes data flag =
     (case dict_get data flag (PyStr []) of
        PyStr s \<Rightarrow> Inr (py_lower (py_strip s) = ''yes'')
      | _ \<Rightarrow> Inl AttributeError)"

text \<open>
  Entering the first pending section. The \<^verbatim>\<open>if\<close> chain binds \<^verbatim>\<open>section_result\<close> for J, L
  and R only; for another id the next statement raises \<^verbatim>\<open>UnboundLocalError\<close>, a
  \<^verbatim>\<open>NameError\<close>.
\<close>

definition process_pending :: "string \<Rightarrow> section_result option" where
  "process_pending next_section =
     (if next_section = ''J'' then Some process_section_j_mortgage
      else if next_section = ''L'' then Some process_section_l_insurance
      else if next_section = ''R'' then Some process_section_r_dtaa
      else None)"

definition enter_pending :: "session \<Rightarrow> string \<Rightarrow> string list \<Rightarrow> string \<Rightarrow> outcome" where
  "enter_pending s next_section rest completed =
     (let s' = s\<lparr> pending_sections := rest, current_section := next_section,
                  current_question_index := 0 \<rparr>
      in case process_pending next_section of
           None \<Rightarrow> Raised NameError s' []
         | Some section_result \<Rightarrow> open_section s' section_result completed)"

text \<open>The end of an IT1 filing (lines 453 to 483 and 717 to 744; the two summaries print
  different lines of the same computation).\<close>

definition finish_it1 :: "session \<Rightarrow> outcome" where
  "finish_it1 s =
     (let result = section_t_tax_computation (collected_data s);
          kra_pin = dict_get (dict_get (collected_data s) ''A_PART1'' Map.empty) ''kra_pin'' PyNone;
          declared_income = total_income result
      in Returned (s\<lparr> filing_started := False, collected_data := Map.empty \<rparr>)
           [Message ''All sections completed! Computing your tax...'',
            TaxSummary result,
            BackgroundAudit kra_pin declared_income])"

text \<open>The name the message after J, L or R gives the section that is entered.\<close>

definition section_name :: "string \<Rightarrow> string" where
  "section_name next_section =
     (if next_section = ''J'' then ''J (Mortgage)''
      else if next_section = ''L'' then ''L (Insurance)''
      else if next_section = ''R'' then ''R (Foreign Income)''
      else next_section)"

text \<open>
  The transitions, lines 179 to 769: the branch taken when the section has no question
  left. In five VAT branches the name \<^verbatim>\<open>cl_user_session\<close> is read, which nothing binds:
  lines 568, 616, 631, 647 and 685. The last branch repeats the test of an earlier one.
\<close>

definition transition :: "session \<Rightarrow> outcome" where
  "transition s =
     (let sec = current_section s;
          ftype = filing_type s;
          data = collected_data s
      in
      if sec = ''A_PART1'' \<and> ftype = Some ''IT1''
        then enter_section s ''A_PART2'' process_section_a_part2 ''Section A Part 1 completed!''
      else if sec = ''A_PART2'' \<and> ftype = Some ''IT1''
        then enter_section s ''A_PART3'' process_section_a_part3 ''Section A Part 2 completed!''
      else if sec = ''A_PART3'' \<and> ftype = Some ''IT1''
        then (case flag_is_yes (dict_get data ''A_PART1'' Map.empty) ''has_disability'' of
                Inl e \<Rightarrow> Raised e s []
              | Inr has_disability \<Rightarrow>
                  if has_disability
                  then enter_section s ''A_PART6'' process_section_a_part6
                         ''Section A Part 3 completed!''
                  else enter_section s ''F'' process_section_f ''Section A completed!'')
      else if sec = ''A_PART6'' \<and> ftype = Some ''IT1''
        then enter_section s ''F'' process_section_f ''Section A completed!''
      else if sec = ''F'' \<and> ftype = Some ''IT1''
        then (case flag_is_yes (dict_get data ''F'' Map.empty) ''has_employment_income'' of
                Inl e \<Rightarrow> Raised e s []
              | Inr has_employment_income \<Rightarrow>
                  if has_employment_income
                  then enter_section s ''M'' process_section_m_paye ''Section F completed!''
                  else enter_section s ''F2'' process_section_f2_other_income
                         ''Section F completed!'')
      else if sec = ''M'' \<and> ftype = Some ''IT1''
        then enter_section s ''F2'' process_section_f2_other_income
               ''Section M (PAYE) completed!''
      else if sec = ''F2'' \<and> ftype = Some ''IT1''
        then enter_section s ''H'' process_section_h_estate_trust ''Section F2 completed!''
      else if sec = ''H'' \<and> ftype = Some ''IT1''
        then enter_section s ''K'' process_section_k_hosp ''Section H completed!''
      else if sec = ''K'' \<and> ftype = Some ''IT1''
        then enter_section s ''N'' process_section_n_installment_tax ''Section K completed!''
      else if sec = ''N'' \<and> ftype = Some ''IT1''
        then enter_section s ''O'' process_section_o_wht ''Section N completed!''
      else if sec = ''O'' \<and> ftype = Some ''IT1''
        then enter_section s ''P'' process_section_p_advance_tax ''Section O completed!''
      else if sec = ''P'' \<and> ftype = Some ''IT1''
        then enter_section s ''Q'' process_section_q_income_tax_paid ''Section P completed!''
      else if sec = ''Q'' \<and> ftype = Some ''IT1''
        then (let a_part1_data = dict_get data ''A_PART1'' Map.empty
              in case flag_is_yes a_part1_data ''has_mortgage'' of
                   Inl e \<Rightarrow> Raised e s []
                 | Inr mortgage \<Rightarrow>
              (case flag_is_yes a_part1_data ''has_insurance'' of
                   Inl e \<Rightarrow> Raised e s []
                 | Inr insurance \<Rightarrow>
              (case flag_is_yes a_part1_data ''has_foreign_income'' of
                   Inl e \<Rightarrow> Raised e s []
                 | Inr foreign_income \<Rightarrow>
                     (case (if mortgage \<and> data ''J'' = None then [''J''] else [])
                         @ (if insurance \<and> data ''L'' = None then [''L''] else [])
                         @ (if foreign_income \<and> data ''R'' = None then [''R''] else []) of
                        next_section # rest \<Rightarrow>
                          enter_pending s next_section rest ''Section Q completed!''
                      | [] \<Rightarrow> finish_it1 s))))
      else if sec = ''VAT_A'' \<and> ftype = Some ''VAT3''
        then enter_section s ''VAT_B'' process_vat3_section_b ''VAT3 Section A completed!''
      else if sec = ''VAT_B'' \<and> ftype = Some ''VAT3''
        then enter_section s ''VAT_C'' process_vat3_section_c ''VAT3 Section B completed!''
      else if sec = ''VAT_C'' \<and> ftype = Some ''VAT3''
        then enter_section s ''VAT_D'' process_vat3_section_d ''VAT3 Section C completed!''
      else if sec = ''VAT_D'' \<and> ftype = Some ''VAT3''
        then enter_section s ''VAT_E'' process_vat3_section_e ''VAT3 Section D completed!''
      else if sec = ''VAT_E'' \<and> ftype = Some ''VAT3''
        then enter_section s ''VAT_F'' process_vat3_section_f ''VAT3 Section E completed!''
      else if sec = ''VAT_F'' \<and> ftype = Some ''VAT3''
        then Raised NameError (s\<lparr> current_section := ''VAT_G'' \<rparr>) []
      else if sec = ''VAT_G'' \<and> ftype = Some ''VAT3''
        then enter_section s ''VAT_H'' process_vat3_section_h ''VAT3 Section G completed!''
      else if sec = ''VAT_H'' \<and> ftype = Some ''VAT3''
        then enter_section s ''VAT_I'' process_vat3_section_i ''VAT3 Section H completed!''
      else if sec = ''VAT_I'' \<and> ftype = Some ''VAT3''
        then Raised NameError (s\<lparr> current_section := ''VAT_J'' \<rparr>) []
      else if sec = ''VAT_J'' \<and> ftype = Some ''VAT3''
        then Raised NameError s []
      else if sec = ''VAT_K'' \<and> ftype = Some ''VAT3''
        then Raised NameError s []
      else if sec = ''VAT_L'' \<and> ftype = Some ''VAT3''
        then Raised NameError (s\<lparr> filing_started := False \<rparr>)
               [Message ''VAT3 Section L completed! Computing your VAT...'',
                VatSummary (section_o_calculation data)]
      else if sec \<in> set [''J'', ''L'', ''R''] \<and> ftype = Some ''IT1''
        then (case pending_sections s of
                next_section # rest \<Rightarrow>
                  enter_pending s next_section rest
                    (''Section '' @ section_name next_section @ '' completed!'')
              | [] \<Rightarrow> finish_it1 s)
      else if sec = ''VAT_F'' \<and> ftype = Some ''VAT3''
        then Returned (s\<lparr> filing_started := False, collected_data := Map.empty \<rparr>)
               [Message ''VAT3 Section F completed! Computing your VAT...'',
                VatSummary (section_o_calculation data)]
      else Returned s [])"

text \<open>
  The handler, lines 36 to 178. The dictionaries it reads from the session are the
  session's own objects, so the two assignments into them and the two \<^verbatim>\<open>set\<close> calls after
  them come to the same update.
\<close>

definition main :: "session \<Rightarrow> string \<Rightarrow> outcome" where
  "main s user_input =
     (if \<not> safe (detect_prompt_injection user_input)
      then Returned s [Message ''Invalid input detected. Please provide valid information.'']
      else if \<not> filing_started s then Routed
      else
        (case get_next_question (current_section s) (current_section_data s)
                (section_responses s) of
           None \<Rightarrow> Returned s []
         | Some current_question \<Rightarrow>
             (let field_name = q_field current_question;
                  validation_result = validate_response field_name user_input
              in if \<not> result_valid validation_result
                 then Returned s
                        [Message ((case result_error validation_result of
                                     Some error_message \<Rightarrow> error_message
                                   | None \<Rightarrow> ''None'') @ ''. Please try again.''),
                         Message (q_text current_question)]
                 else
                   (let validated_value = result_value validation_result user_input;
                        responses = (section_responses s)(field_name \<mapsto> validated_value);
                        data = (collected_data s)
                          (current_section s \<mapsto>
                             (dict_get (collected_data s) (current_section s) Map.empty)
                               (field_name \<mapsto> validated_value));
                        s1 = s\<lparr> section_responses := responses, collected_data := data \<rparr>;
                        kra_pin = dict_get (dict_get data ''A_PART1'' Map.empty) ''kra_pin''
                                    (PyStr ''UNKNOWN'');
                        saved = SaveResponse kra_pin
                                  (case filing_type s of
                                     None \<Rightarrow> ''UNKNOWN''
                                   | Some t \<Rightarrow> if t = [] then ''UNKNOWN'' else t)
                                  (current_section s) field_name validated_value (session_id s)
                    in case get_next_question (current_section s) (current_section_data s)
                              responses of
                         Some next_question \<Rightarrow>
                           (let question_index = current_question_index s + 1
                            in Returned (s1\<lparr> current_question_index := question_index \<rparr>)
                                 [saved,
                                  if current_section s = ''A_PART1''
                                  then NumberedQuestion (question_index + 1)
                                         (q_text next_question)
                                  else Message (q_text next_question)])
                       | None \<Rightarrow> preceded_by [saved] (transition s1)))))"

section \<open>Notions the properties are stated with\<close>

text \<open>The identifier shape in the words of the specification: one letter, nine digits,
  one letter. A letter is taken to be an ASCII letter at least, a digit what \<^verbatim>\<open>\d\<close>
  matches.\<close>

definition is_letter :: "nat \<Rightarrow> bool" where
  "is_letter c \<longleftrightarrow> (65 \<le> c \<and> c \<le> 90) \<or> (97 \<le> c \<and> c \<le> 122)"

definition spec_identifier_shape :: "(nat \<Rightarrow> bool) \<Rightarrow> ustring \<Rightarrow> bool" where
  "spec_identifier_shape nd s \<longleftrightarrow>
     (case s of
        [] \<Rightarrow> False
      | c # r \<Rightarrow> is_letter c \<and> length r = 10 \<and> list_all (re_digit nd) (take 9 r)
                 \<and> is_letter (last r))"

definition ends_with_newline :: "ustring \<Rightarrow> bool" where
  "ends_with_newline s \<longleftrightarrow> (case rev s of [] \<Rightarrow> False | c # _ \<Rightarrow> c = 10)"

text \<open>A table of decimal digits beyond ASCII that holds the Arabic-Indic digits
  U+0660 to U+0669, which Unicode lists in the category Nd.\<close>

definition arabic_indic :: "nat \<Rightarrow> bool" where
  "arabic_indic c \<longleftrightarrow> 0x660 \<le> c \<and> c \<le> 0x669"

text \<open>An entry of the collected answers, and the absence of one.\<close>

definition entry :: "collected \<Rightarrow> string \<Rightarrow> string \<Rightarrow> pyval option" where
  "entry cd sec fld = (case cd sec of None \<Rightarrow> None | Some m \<Rightarrow> m fld)"

text \<open>The answers \<^verbatim>\<open>test_system.py\<close> gives the income-tax engine.\<close>

definition it1_test_data :: collected where
  "it1_test_data =
     [''F'' \<mapsto> [''gross_pay'' \<mapsto> PyStr ''1000000'', ''pension_excess'' \<mapsto> PyStr ''0''],
      ''L'' \<mapsto> [''insurance_relief'' \<mapsto> PyStr ''60000''],
      ''M'' \<mapsto> [''paye_deducted'' \<mapsto> PyStr ''150000'']]"

text \<open>The answers \<^verbatim>\<open>test_system.py\<close> gives the VAT engine.\<close>

definition vat3_test_data :: collected where
  "vat3_test_data =
     [''VAT_B'' \<mapsto> [''taxable_value'' \<mapsto> PyStr ''1000000''],
      ''VAT_F'' \<mapsto> [''taxable_value'' \<mapsto> PyStr ''600000'']]"

text \<open>The discrepancy percentage of a positive declared income, in the words of the
  specification: discrepancy divided by declared income, times 100.\<close>

definition percentage_of :: "rat \<Rightarrow> rat \<Rightarrow> rat" where
  "percentage_of declared inferred = (inferred - declared) / declared * 100"

text \<open>The addends of the five steps of \<^verbatim>\<open>calculate_risk_score\<close>, named so that the score
  can be reasoned about step by step; \<open>calculate_risk_score_points\<close> below proves that the
  function as written computes their capped sum.\<close>

definition discrepancy_points :: "rat \<Rightarrow> int" where
  "discrepancy_points pct =
     (if pct > 200 then 40 else if pct > 100 then 30 else if pct > 50 then 20
      else if pct > 20 then 10 else 0)"

definition vehicle_points :: "vehicle_data \<Rightarrow> int" where
  "vehicle_points v =
     (if vehicle_has_data v
      then (if vehicle_total_value v > 20000000 then 25
            else if vehicle_total_value v > 10000000 then 15
            else if vehicle_count v \<ge> 2 then 10 else 0)
      else 0)"

definition property_points :: "property_data \<Rightarrow> int" where
  "property_points p =
     (if property_has_data p
      then (if property_total_value p > 50000000 then 25
            else if property_total_value p > 20000000 then 15
            else if property_count p \<ge> 3 then 10 else 0)
      else 0)"

definition import_points :: "import_data \<Rightarrow> int" where
  "import_points i =
     (if import_has_data i then (if import_total_value i > 5000000 then 15 else 0) else 0)"

definition undeclared_points :: "rat \<Rightarrow> rat \<Rightarrow> int" where
  "undeclared_points declared inferred = (if declared = 0 \<and> inferred > 1000000 then 20 else 0)"

text \<open>A wealth profile with the three total values replaced and every other field kept.\<close>

definition with_values :: "wealth_profile \<Rightarrow> rat \<Rightarrow> rat \<Rightarrow> rat \<Rightarrow> wealth_profile" where
  "with_values assets vehicle_val property_val import_val =
     assets\<lparr> vehicles := (vehicles assets)\<lparr> vehicle_total_value := vehicle_val \<rparr>,
             properties := (properties assets)\<lparr> property_total_value := property_val \<rparr>,
             imports' := (imports' assets)\<lparr> import_total_value := import_val \<rparr> \<rparr>"

text \<open>A wealth profile and an empty store to evaluate the engine on.\<close>

definition sample_profile :: wealth_profile where
  "sample_profile =
     \<lparr> profile_kra_pin = ''A001234567P'',
       bank = \<lparr> bank_kra_pin = ''A001234567P'', total_inflows = 600000,
                bank_transaction_count = 3, bank_has_data = True, latest_balance = Some 1000 \<rparr>,
       mpesa = \<lparr> mpesa_kra_pin = ''A001234567P'', total_received = 0,
                 mpesa_transaction_count = 0, mpesa_has_data = False \<rparr>,
       vehicles = \<lparr> vehicle_kra_pin = ''A001234567P'', vehicle_count = 1,
                    vehicle_total_value = 5000000, vehicle_has_data = True,
                    vehicles_list = Some [(''Toyota'', ''Prado'', 5000000)] \<rparr>,
       properties = \<lparr> property_kra_pin = ''A001234567P'', property_count = 1,
                      property_total_value = 10000000, property_has_data = True,
                      properties_list = Some [(''Nairobi'', ''Apartment'', 10000000)] \<rparr>,
       imports' = \<lparr> import_kra_pin = ''A001234567P'', import_count = 1,
                    import_total_value = 1000000, import_has_data = True \<rparr>,
       telco = \<lparr> telco_kra_pin = ''A001234567P'', telco_has_data = False,
                 months_tracked = None, total_bills = None \<rparr>,
       has_any_data = True \<rparr>"

definition empty_db :: db where
  "empty_db =
     \<lparr> bank_transactions = (\<lambda>_. []), mpesa_transactions = (\<lambda>_. []),
       vehicle_assets = (\<lambda>_. []), property_assets = (\<lambda>_. []),
       import_records = (\<lambda>_. []), telco_usage = (\<lambda>_. []),
       access_logs = [], audit_cases = [] \<rparr>"

text \<open>A store with truth data for one taxpayer: one bank credit of 5,000,000 and one
  vehicle valued at 25,000,000.\<close>

definition risky_db :: db where
  "risky_db =
     \<lparr> bank_transactions =
         (\<lambda>p. if p = ''A001234567P''
              then [\<lparr> bank_amount = 5000000, bank_type = ''CREDIT'', bank_balance = 5000000 \<rparr>]
              else []),
       mpesa_transactions = (\<lambda>_. []),
       vehicle_assets =
         (\<lambda>p. if p = ''A001234567P''
              then [\<lparr> vehicle_make = ''Toyota'', vehicle_model = ''Land Cruiser'',
                      vehicle_estimated_value = 25000000 \<rparr>]
              else []),
       property_assets = (\<lambda>_. []),
       import_records = (\<lambda>_. []), telco_usage = (\<lambda>_. []),
       access_logs = [], audit_cases = [] \<rparr>"

text \<open>
  A conversation: the handler is called once per message on the session the call before
  left, also after a call that raised.
\<close>

definition session_after :: "session \<Rightarrow> outcome \<Rightarrow> session" where
  "session_after s r =
     (case r of Routed \<Rightarrow> s | Returned s' _ \<Rightarrow> s' | Raised _ s' _ \<Rightarrow> s')"

fun conversation :: "session \<Rightarrow> string list \<Rightarrow> session" where
  "conversation s [] = s"
| "conversation s (m # ms) = conversation (session_after s (main s m)) ms"

text \<open>Answers that take a VAT3 filing through the sections A to E (no sales of any kind),
  and an IT1 filing through the three parts of section A (no flag set, not audited).\<close>

definition vat3_answers :: "string list" where
  "vat3_answers =
     [''A001234567P'', ''Original'', ''Head Office'', ''2024-01-01'', ''2024-01-31'', ''No'',
      ''No'', ''No'', ''No'', ''No'']"

definition it1_answers :: "string list" where
  "it1_answers =
     [''A001234567P'', ''Original'', ''2024-01-01'', ''2024-12-31'',
      ''No'', ''No'', ''No'', ''No'', ''No'', ''No'', ''No'', ''No'',
      ''KCB'', ''Main'', ''Nairobi'', ''Jane Doe'', ''12345'',
      ''No'']"

definition invalid_input_reply :: "effect list" where
  "invalid_input_reply = [Message ''Invalid input detected. Please provide valid information.'']"

section \<open>The identifier validator\<close>

lemma re_items_digits:
  "re_items nd (replicate n Digit @ p) b s \<longleftrightarrow>
     (\<exists>ds r. s = ds @ r \<and> length ds = n \<and> list_all (re_digit nd) ds
             \<and> re_items nd p (b \<and> n = 0) r)"
proof (induction n arbitrary: s b)
  case 0
  show ?case by simp
next
  case (Suc n)
  show ?case
  proof (cases s)
    case Nil
    then show ?thesis by simp
  next
    case (Cons x xs)
    have "re_items nd (replicate (Suc n) Digit @ p) b s \<longleftrightarrow>
          re_digit nd x \<and> re_items nd (replicate n Digit @ p) False xs"
      using Cons by simp
    also have "\<dots> \<longleftrightarrow> re_digit nd x \<and>
        (\<exists>ds r. xs = ds @ r \<and> length ds = n \<and> list_all (re_digit nd) ds
                \<and> re_items nd p False r)"
      using Suc.IH [of False xs] by simp
    also have "\<dots> \<longleftrightarrow>
        (\<exists>ds r. s = ds @ r \<and> length ds = Suc n \<and> list_all (re_digit nd) ds
                \<and> re_items nd p False r)"
    proof
      assume "re_digit nd x \<and>
        (\<exists>ds r. xs = ds @ r \<and> length ds = n \<and> list_all (re_digit nd) ds
                \<and> re_items nd p False r)"
      then obtain ds r where "re_digit nd x" "xs = ds @ r" "length ds = n"
        "list_all (re_digit nd) ds" "re_items nd p False r" by blast
      then have "s = (x # ds) @ r \<and> length (x # ds) = Suc n
         \<and> list_all (re_digit nd) (x # ds) \<and> re_items nd p False r" using Cons by simp
      then show "\<exists>ds r. s = ds @ r \<and> length ds = Suc n \<and> list_all (re_digit nd) ds
                \<and> re_items nd p False r"
        by blast
    next
      assume "\<exists>ds r. s = ds @ r \<and> length ds = Suc n \<and> list_all (re_digit nd) ds
                \<and> re_items nd p False r"
      then obtain ds r where *: "s = ds @ r" "length ds = Suc n" "list_all (re_digit nd) ds"
        "re_items nd p False r" by blast
      then obtain d ds' where "ds = d # ds'" by (cases ds) auto
      with * Cons show "re_digit nd x \<and>
        (\<exists>ds r. xs = ds @ r \<and> length ds = n \<and> list_all (re_digit nd) ds
                \<and> re_items nd p False r)"
        by auto
    qed
    finally show ?thesis by simp
  qed
qed

lemma re_items_tail:
  "re_items nd [Lit 80, Eol] False r \<longleftrightarrow> r = [80] \<or> r = [80, 10]"
  by (cases r) auto

lemma kra_pin_match:
  "re_match nd kra_pin_pattern s \<longleftrightarrow>
     (\<exists>ds. length ds = 9 \<and> list_all (re_digit nd) ds \<and>
        (s = 65 # ds @ [80] \<or> s = 65 # ds @ [80, 10]))"
proof (cases s)
  case Nil
  then show ?thesis by (simp add: re_match_def kra_pin_pattern_def)
next
  case (Cons x xs)
  have "re_match nd kra_pin_pattern s \<longleftrightarrow>
        x = 65 \<and> re_items nd (replicate 9 Digit @ [Lit 80, Eol]) False xs"
    using Cons by (simp add: re_match_def kra_pin_pattern_def)
  also have "\<dots> \<longleftrightarrow> x = 65 \<and>
      (\<exists>ds r. xs = ds @ r \<and> length ds = 9 \<and> list_all (re_digit nd) ds \<and>
         re_items nd [Lit 80, Eol] False r)"
    by (simp add: re_items_digits)
  also have "\<dots> \<longleftrightarrow> (\<exists>ds. length ds = 9 \<and> list_all (re_digit nd) ds \<and>
        (s = 65 # ds @ [80] \<or> s = 65 # ds @ [80, 10]))"
    using Cons unfolding re_items_tail by auto
  finally show ?thesis .
qed

text \<open>
  Claim C9, as amended. Whatever the table of the decimal digits beyond ASCII, on every
  string of code points that does not end in a newline \<^verbatim>\<open>validate_kra_pin\<close> accepts exactly
  the strings made of the letter \<^verbatim>\<open>A\<close>, nine characters that \<^verbatim>\<open>\d\<close> matches (ASCII digits or
  other Unicode decimal digits) and the letter \<^verbatim>\<open>P\<close>; an accepted string is returned as the
  pin with no error, and every other string is rejected with no pin and the format error.
\<close>

theorem validate_kra_pin_shape:
  assumes "\<not> ends_with_newline s"
  shows "(pin_valid (validate_kra_pin nd s) \<longleftrightarrow>
           (\<exists>ds. length ds = 9 \<and> list_all (re_digit nd) ds \<and> s = 65 # ds @ [80]))
       \<and> validate_kra_pin nd s =
           (if pin_valid (validate_kra_pin nd s)
            then \<lparr> pin_valid = True, pin_pin = Some s, pin_error = None \<rparr>
            else \<lparr> pin_valid = False, pin_pin = None,
                   pin_error = Some ''Invalid KRA PIN format. Expected format: A#########P'' \<rparr>)"
proof -
  have "pin_valid (validate_kra_pin nd s) \<longleftrightarrow> re_match nd kra_pin_pattern s"
    by (simp add: validate_kra_pin_def Let_def)
  moreover have "\<And>ds. s \<noteq> 65 # ds @ [80, 10]"
    using assms by (auto simp: ends_with_newline_def)
  ultimately have "pin_valid (validate_kra_pin nd s) \<longleftrightarrow>
           (\<exists>ds. length ds = 9 \<and> list_all (re_digit nd) ds \<and> s = 65 # ds @ [80])"
    by (simp add: kra_pin_match)
  moreover have "validate_kra_pin nd s =
           (if pin_valid (validate_kra_pin nd s)
            then \<lparr> pin_valid = True, pin_pin = Some s, pin_error = None \<rparr>
            else \<lparr> pin_valid = False, pin_pin = None,
                   pin_error = Some ''Invalid KRA PIN format. Expected format: A#########P'' \<rparr>)"
    by (simp add: validate_kra_pin_def Let_def)
  ultimately show ?thesis by blast
qed

text \<open>The theorem at the pin of the repository's test, at the test's invalid example, and at
  a pin whose ninth digit is the Arabic-Indic digit three (U+0663), with a table that
  holds the Arabic-Indic digits: the first and the third are accepted.\<close>

theorem validate_kra_pin_shape_witness:
  "\<not> ends_with_newline (code_points ''A001234567P'')
   \<and> pin_valid (validate_kra_pin arabic_indic (code_points ''A001234567P''))
   \<and> \<not> ends_with_newline (code_points ''INVALID'')
   \<and> \<not> pin_valid (validate_kra_pin arabic_indic (code_points ''INVALID''))
   \<and> \<not> ends_with_newline (code_points ''A00123456'' @ [0x663] @ code_points ''P'')
   \<and> pin_valid (validate_kra_pin arabic_indic
        (code_points ''A00123456'' @ [0x663] @ code_points ''P''))"
proof -
  have a: "\<not> ends_with_newline (code_points ''A001234567P'')"
    and b: "\<not> ends_with_newline (code_points ''INVALID'')"
    and c: "\<not> ends_with_newline (code_points ''A00123456'' @ [0x663] @ code_points ''P'')"
    by (simp_all add: ends_with_newline_def code_points_def)
  have d: "length (code_points ''001234567'') = 9
         \<and> list_all (re_digit arabic_indic) (code_points ''001234567'')
         \<and> code_points ''A001234567P'' = 65 # code_points ''001234567'' @ [80]"
    by (simp add: re_digit_def code_points_def)
  have e: "length (code_points ''00123456'' @ [0x663]) = 9
         \<and> list_all (re_digit arabic_indic) (code_points ''00123456'' @ [0x663])
         \<and> code_points ''A00123456'' @ [0x663] @ code_points ''P''
             = 65 # (code_points ''00123456'' @ [0x663]) @ [80]"
    by (simp add: re_digit_def code_points_def arabic_indic_def)
  have "pin_valid (validate_kra_pin arabic_indic (code_points ''A001234567P''))"
    using validate_kra_pin_shape [OF a, of arabic_indic] d by blast
  moreover have "\<not> pin_valid (validate_kra_pin arabic_indic (code_points ''INVALID''))"
    using validate_kra_pin_shape [OF b, of arabic_indic] by (simp add: code_points_def)
  moreover have "pin_valid (validate_kra_pin arabic_indic
        (code_points ''A00123456'' @ [0x663] @ code_points ''P''))"
    using validate_kra_pin_shape [OF c, of arabic_indic] e by blast
  ultimately show ?thesis using a b c by simp
qed

text \<open>The string \<^verbatim>\<open>B123456789C\<close> is rejected whatever the table of digits is.\<close>

lemma validate_kra_pin_other_letters:
  "\<not> pin_valid (validate_kra_pin nd (code_points ''B123456789C''))"
  by (simp add: validate_kra_pin_def Let_def re_match_def kra_pin_pattern_def code_points_def)

text \<open>
  Claim C9 as stated fails: \<^verbatim>\<open>B123456789C\<close> is one letter, nine digits and one letter,
  and the validator rejects it, because the pattern fixes the two letters.
\<close>

theorem validate_kra_pin_letters_counterexample:
  "spec_identifier_shape arabic_indic (code_points ''B123456789C'')
   \<and> \<not> pin_valid (validate_kra_pin arabic_indic (code_points ''B123456789C''))"
  using validate_kra_pin_other_letters [of arabic_indic]
  by (simp add: spec_identifier_shape_def is_letter_def re_digit_def code_points_def)

section \<open>The amount sanitizer\<close>

lemma number_value_nonneg: "number_value t = Some v \<Longrightarrow> 0 \<le> v"
  by (auto simp: number_value_def Let_def split: list.splits if_splits)

lemma scale10_nonneg: "0 \<le> m \<Longrightarrow> 0 \<le> scale10 m e"
  by (simp add: scale10_def)

lemma floatnumber_nonneg: "floatnumber t = Some v \<Longrightarrow> 0 \<le> v"
  by (auto simp: floatnumber_def Let_def scale10_nonneg split: list.splits option.splits
      dest: number_value_nonneg)

lemma set_py_strip: "set (py_strip t) \<subseteq> set t"
proof -
  have "set (py_strip t) \<subseteq> set (dropWhile is_space t)"
    unfolding py_strip_def using set_dropWhileD [of _ is_space "rev (dropWhile is_space t)"]
    by auto
  also have "\<dots> \<subseteq> set t" using set_dropWhileD [of _ is_space t] by auto
  finally show ?thesis .
qed

lemma py_float_unsigned_nonneg:
  assumes "CHR ''-'' \<notin> set t" and "py_float t = Some v"
  shows "0 \<le> v"
proof (cases "py_strip t")
  case Nil
  with assms show ?thesis by (simp add: py_float_def)
next
  case (Cons c r)
  then have "c \<in> set t" using set_py_strip [of t] by auto
  with assms(1) have "c \<noteq> CHR ''-''" by auto
  with assms(2) Cons show ?thesis
    by (auto simp: py_float_def split: if_splits dest: floatnumber_nonneg)
qed

lemma strip_non_numeric_no_minus: "CHR ''-'' \<notin> set (strip_non_numeric s)"
  by (auto simp: strip_non_numeric_def is_digit_def)

text \<open>
  Claim C10. For every input string \<^verbatim>\<open>sanitize_financial_input\<close> returns either an
  accepted amount that is at least 0 or the error for an unparsable amount; it never
  returns the error for a negative amount, since the minus sign is stripped with every
  other character that is neither a digit nor a point; \<^verbatim>\<open>-500\<close> is accepted as 500.
\<close>

theorem sanitize_financial_input_never_negative:
  "((\<exists>v. 0 \<le> v \<and> sanitize_financial_input s =
          \<lparr> amount_valid = True, amount_value = Some v, amount_error = None \<rparr>)
    \<or> sanitize_financial_input s =
          \<lparr> amount_valid = False, amount_value = None,
            amount_error = Some ''Invalid amount format'' \<rparr>)
   \<and> amount_error (sanitize_financial_input s) \<noteq> Some ''Amount cannot be negative''
   \<and> sanitize_financial_input ''-500'' =
          \<lparr> amount_valid = True, amount_value = Some 500, amount_error = None \<rparr>"
proof -
  have nn: "\<And>v. py_float (strip_non_numeric s) = Some v \<Longrightarrow> 0 \<le> v"
    using py_float_unsigned_nonneg [OF strip_non_numeric_no_minus] by blast
  have 1: "(\<exists>v. 0 \<le> v \<and> sanitize_financial_input s =
          \<lparr> amount_valid = True, amount_value = Some v, amount_error = None \<rparr>)
    \<or> sanitize_financial_input s =
          \<lparr> amount_valid = False, amount_value = None,
            amount_error = Some ''Invalid amount format'' \<rparr>"
  proof (cases "py_float (strip_non_numeric s)")
    case None
    then show ?thesis by (simp add: sanitize_financial_input_def)
  next
    case (Some v)
    with nn have "0 \<le> v" by blast
    with Some show ?thesis by (simp add: sanitize_financial_input_def)
  qed
  then have 2: "amount_error (sanitize_financial_input s) \<noteq> Some ''Amount cannot be negative''"
    by auto
  have 3: "sanitize_financial_input ''-500'' =
          \<lparr> amount_valid = True, amount_value = Some 500, amount_error = None \<rparr>"
    by (simp add: sanitize_financial_input_def strip_non_numeric_def is_digit_def py_float_def
        py_strip_def is_space_def floatnumber_def is_exp_mark_def number_value_def
        digits_value_def digit_val_def)
  from 1 2 3 show ?thesis by blast
qed

section \<open>The income-tax engine on the worked example\<close>

lemma answer_entry: "answer cd sec fld = (case entry cd sec fld of None \<Rightarrow> PyNum 0 | Some v \<Rightarrow> v)"
  by (simp add: answer_def entry_def dict_get_def split: option.splits)

lemmas float_eval = py_float_def py_strip_def is_space_def floatnumber_def is_exp_mark_def
  number_value_def digits_value_def digit_val_def is_digit_def py_lower_def py_lower_char_def
  is_upper_def

lemma safe_float_examples:
  "safe_float (PyStr ''1000000'') 0 = 1000000"
  "safe_float (PyStr ''0'') 0 = 0"
  "safe_float (PyStr ''60000'') 0 = 60000"
  "safe_float (PyStr ''150000'') 0 = 150000"
  "safe_float (PyStr ''600000'') 0 = 600000"
  "safe_float (PyNum x) 0 = x"
  by (simp_all add: safe_float_def float_eval)

text \<open>
  Claim C1. On any collected answers whose section F holds gross pay 1,000,000 and pension
  excess 0, whose section L holds insurance relief 60,000 and whose section M holds PAYE
  deducted 150,000 (each stored as the number or as its digits), and which hold none of
  the other fields the engine reads, the income-tax engine returns taxable income
  1,000,000, tax payable 237,400, tax after reliefs 148,600, total credits 150,000 and the
  final amount -1,400 with the status of a refund due.
\<close>

theorem it1_worked_example:
  assumes "entry cd ''F'' ''gross_pay'' \<in> {Some (PyNum 1000000), Some (PyStr ''1000000'')}"
    and "entry cd ''F'' ''pension_excess'' \<in> {Some (PyNum 0), Some (PyStr ''0'')}"
    and "entry cd ''L'' ''insurance_relief'' \<in> {Some (PyNum 60000), Some (PyStr ''60000'')}"
    and "entry cd ''M'' ''paye_deducted'' \<in> {Some (PyNum 150000), Some (PyStr ''150000'')}"
    and "entry cd ''F'' ''allowances'' = None"
    and "entry cd ''F'' ''car_benefit_value'' = None"
    and "entry cd ''F'' ''housing_value'' = None"
    and "entry cd ''F2'' ''gross_amount'' = None"
    and "entry cd ''H'' ''estate_income_amount'' = None"
    and "entry cd ''J'' ''interest_paid'' = None"
    and "entry cd ''K'' ''hosp_deposit'' = None"
    and "entry cd ''N'' ''amount_paid'' = None"
    and "entry cd ''O'' ''wht_amount'' = None"
    and "entry cd ''P'' ''advance_tax_paid'' = None"
    and "entry cd ''Q'' ''amount_paid'' = None"
    and "entry cd ''R'' ''dtaa_relief_amount'' = None"
  shows "section_t_tax_computation cd =
           \<lparr> total_income = 1000000, taxable_income = 1000000, tax_payable = 237400,
             tax_after_reliefs = 148600, total_credits = 150000,
             final_tax_due_or_refund = - 1400, status = ''REFUND_DUE'' \<rparr>"
proof -
  have g: "safe_float (answer cd ''F'' ''gross_pay'') 0 = 1000000"
    using assms(1) by (auto simp: answer_entry safe_float_examples)
  have p: "safe_float (answer cd ''F'' ''pension_excess'') 0 = 0"
    using assms(2) by (auto simp: answer_entry safe_float_examples)
  have i: "safe_float (answer cd ''L'' ''insurance_relief'') 0 = 60000"
    using assms(3) by (auto simp: answer_entry safe_float_examples)
  have m: "safe_float (answer cd ''M'' ''paye_deducted'') 0 = 150000"
    using assms(4) by (auto simp: answer_entry safe_float_examples)
  have z: "safe_float (answer cd ''F'' ''allowances'') 0 = 0"
    "safe_float (answer cd ''F'' ''car_benefit_value'') 0 = 0"
    "safe_float (answer cd ''F'' ''housing_value'') 0 = 0"
    "safe_float (answer cd ''F2'' ''gross_amount'') 0 = 0"
    "safe_float (answer cd ''H'' ''estate_income_amount'') 0 = 0"
    "safe_float (answer cd ''J'' ''interest_paid'') 0 = 0"
    "safe_float (answer cd ''K'' ''hosp_deposit'') 0 = 0"
    "safe_float (answer cd ''N'' ''amount_paid'') 0 = 0"
    "safe_float (answer cd ''O'' ''wht_amount'') 0 = 0"
    "safe_float (answer cd ''P'' ''advance_tax_paid'') 0 = 0"
    "safe_float (answer cd ''Q'' ''amount_paid'') 0 = 0"
    "safe_float (answer cd ''R'' ''dtaa_relief_amount'') 0 = 0"
    using assms(5-16) by (simp_all add: answer_entry safe_float_examples)
  show ?thesis
    unfolding section_t_tax_computation_def g p i m z by (simp add: Let_def)
qed

text \<open>The theorem at the answers of the repository's test.\<close>

theorem it1_worked_example_witness:
  "section_t_tax_computation it1_test_data =
           \<lparr> total_income = 1000000, taxable_income = 1000000, tax_payable = 237400,
             tax_after_reliefs = 148600, total_credits = 150000,
             final_tax_due_or_refund = - 1400, status = ''REFUND_DUE'' \<rparr>"
  by (rule it1_worked_example) (simp_all add: entry_def it1_test_data_def)

section \<open>The VAT engine on the worked example\<close>

text \<open>
  Claim C2. On any collected answers whose section VAT_B holds the taxable value 1,000,000
  and whose section VAT_F holds the taxable value 600,000 (each stored as the number or as
  its digits), and which hold none of the other fields the engine reads, the VAT engine
  returns output VAT 160,000, input VAT 96,000, non-deductible input VAT 0 (exempt sales
  are 0 of total sales 1,000,000), deductible input VAT 96,000 and net VAT 64,000 with the
  status payable.
\<close>

theorem vat3_worked_example:
  assumes "entry cd ''VAT_B'' ''taxable_value'' \<in> {Some (PyNum 1000000), Some (PyStr ''1000000'')}"
    and "entry cd ''VAT_F'' ''taxable_value'' \<in> {Some (PyNum 600000), Some (PyStr ''600000'')}"
    and "entry cd ''VAT_C'' ''taxable_value'' = None"
    and "entry cd ''VAT_D'' ''local_value'' = None"
    and "entry cd ''VAT_D'' ''export_value'' = None"
    and "entry cd ''VAT_E'' ''exempt_sales_value'' = None"
    and "entry cd ''VAT_G'' ''taxable_value'' = None"
    and "entry cd ''VAT_H'' ''taxable_value'' = None"
    and "entry cd ''VAT_I'' ''registered_purchases'' = None"
    and "entry cd ''VAT_I'' ''import_purchases'' = None"
    and "entry cd ''VAT_I'' ''no_vat_purchases'' = None"
    and "entry cd ''VAT_J'' ''vat_claimable'' = None"
    and "entry cd ''VAT_L'' ''vat_withheld'' = None"
    and "entry cd ''VAT_K'' ''advance_payment_amount'' = None"
    and "entry cd ''VAT_K'' ''self_assessment_amount'' = None"
    and "entry cd ''VAT_K'' ''credit_adjustment_amount'' = None"
  shows "section_o_calculation cd =
           \<lparr> output_vat = 160000, input_vat = 96000, imported_services_vat = 0,
             non_deductible_input_vat = 0, deductible_input_vat = 96000,
             vat_payable_credit = 64000, credit_brought_forward = 0, wht_credits = 0,
             vat_paid = 0, net_vat_payable_credit = 64000, vat_status = ''VAT_PAYABLE'' \<rparr>
       \<and> exempt_sales (section_m_sales_summary cd) = 0
       \<and> total_sales (section_m_sales_summary cd) = 1000000"
proof -
  have b: "safe_float (answer cd ''VAT_B'' ''taxable_value'') 0 = 1000000"
    using assms(1) by (auto simp: answer_entry safe_float_examples)
  have f: "safe_float (answer cd ''VAT_F'' ''taxable_value'') 0 = 600000"
    using assms(2) by (auto simp: answer_entry safe_float_examples)
  have z: "safe_float (answer cd ''VAT_C'' ''taxable_value'') 0 = 0"
    "safe_float (answer cd ''VAT_D'' ''local_value'') 0 = 0"
    "safe_float (answer cd ''VAT_D'' ''export_value'') 0 = 0"
    "safe_float (answer cd ''VAT_E'' ''exempt_sales_value'') 0 = 0"
    "safe_float (answer cd ''VAT_G'' ''taxable_value'') 0 = 0"
    "safe_float (answer cd ''VAT_H'' ''taxable_value'') 0 = 0"
    "safe_float (answer cd ''VAT_I'' ''registered_purchases'') 0 = 0"
    "safe_float (answer cd ''VAT_I'' ''import_purchases'') 0 = 0"
    "safe_float (answer cd ''VAT_I'' ''no_vat_purchases'') 0 = 0"
    "safe_float (answer cd ''VAT_J'' ''vat_claimable'') 0 = 0"
    "safe_float (answer cd ''VAT_L'' ''vat_withheld'') 0 = 0"
    "safe_float (answer cd ''VAT_K'' ''advance_payment_amount'') 0 = 0"
    "safe_float (answer cd ''VAT_K'' ''self_assessment_amount'') 0 = 0"
    "safe_float (answer cd ''VAT_K'' ''credit_adjustment_amount'') 0 = 0"
    using assms(3-16) by (simp_all add: answer_entry safe_float_examples)
  have m: "section_m_sales_summary cd =
      \<lparr> taxable_sales = 1000000, zero_rated_sales = 0, exempt_sales = 0, total_sales = 1000000,
        output_vat_16 = 160000, output_vat_8 = 0, total_output_vat = 160000 \<rparr>"
    unfolding section_m_sales_summary_def b z by (simp add: Let_def)
  have n: "section_n_purchase_summary cd =
      \<lparr> taxable_purchases = 600000, zero_rated_purchases = 0, exempt_purchases = 0,
        total_purchases = 600000, input_vat_16 = 96000, input_vat_8 = 0,
        total_input_vat = 96000 \<rparr>"
    unfolding section_n_purchase_summary_def f z by (simp add: Let_def)
  have "section_o_calculation cd =
           \<lparr> output_vat = 160000, input_vat = 96000, imported_services_vat = 0,
             non_deductible_input_vat = 0, deductible_input_vat = 96000,
             vat_payable_credit = 64000, credit_brought_forward = 0, wht_credits = 0,
             vat_paid = 0, net_vat_payable_credit = 64000, vat_status = ''VAT_PAYABLE'' \<rparr>"
    unfolding section_o_calculation_def m n z by (simp add: Let_def)
  with m show ?thesis by simp
qed

text \<open>The theorem at the answers of the repository's test.\<close>

theorem vat3_worked_example_witness:
  "section_o_calculation vat3_test_data =
           \<lparr> output_vat = 160000, input_vat = 96000, imported_services_vat = 0,
             non_deductible_input_vat = 0, deductible_input_vat = 96000,
             vat_payable_credit = 64000, credit_brought_forward = 0, wht_credits = 0,
             vat_paid = 0, net_vat_payable_credit = 64000, vat_status = ''VAT_PAYABLE'' \<rparr>
       \<and> exempt_sales (section_m_sales_summary vat3_test_data) = 0
       \<and> total_sales (section_m_sales_summary vat3_test_data) = 1000000"
  by (rule vat3_worked_example) (simp_all add: entry_def vat3_test_data_def)

section \<open>The audit risk engine\<close>

lemma detect_discrepancy_eq:
  "detect_discrepancy declared inferred =
     Inr \<lparr> d_declared_income = declared, d_inferred_income = inferred,
           discrepancy_amount = inferred - declared,
           discrepancy_percentage = (if declared > 0 then percentage_of declared inferred else 100),
           has_discrepancy = (inferred - declared > 0) \<rparr>"
  by (simp add: detect_discrepancy_def py_truediv_def percentage_of_def Let_def)

lemma if_add_same: "(if a then (s::int) + x else s) = s + (if a then x else 0)"
  by simp

lemma if_add_both: "(if a then (s::int) + x else s + y) = s + (if a then x else y)"
  by simp

lemma calculate_risk_score_points:
  "calculate_risk_score declared inferred assets =
     Inr (min (discrepancy_points (if declared > 0 then percentage_of declared inferred else 100)
               + vehicle_points (vehicles assets) + property_points (properties assets)
               + import_points (imports' assets) + undeclared_points declared inferred) 100)"
proof -
  have pct: "(if declared > 0
               then (case py_truediv (inferred - declared) declared of
                       Inl e \<Rightarrow> Inl e
                     | Inr q \<Rightarrow> Inr (q * 100))
               else Inr 100)
           = Inr (if declared > 0 then percentage_of declared inferred else 100)"
    by (simp add: py_truediv_def percentage_of_def)
  show ?thesis
    unfolding calculate_risk_score_def pct sum.case Let_def if_add_same if_add_both
      discrepancy_points_def vehicle_points_def property_points_def import_points_def
      undeclared_points_def
    by (simp split del: if_split)
qed

lemma discrepancy_points_mono: "p \<le> q \<Longrightarrow> discrepancy_points p \<le> discrepancy_points q"
  by (simp add: discrepancy_points_def)

lemma discrepancy_points_range: "0 \<le> discrepancy_points p"
  by (simp add: discrepancy_points_def)

lemma vehicle_points_mono:
  "vehicle_total_value v \<le> x \<Longrightarrow>
     vehicle_points v \<le> vehicle_points (v\<lparr>vehicle_total_value := x\<rparr>)"
  by (simp add: vehicle_points_def)

lemma property_points_mono:
  "property_total_value p \<le> x \<Longrightarrow>
     property_points p \<le> property_points (p\<lparr>property_total_value := x\<rparr>)"
  by (simp add: property_points_def)

lemma import_points_mono:
  "import_total_value i \<le> x \<Longrightarrow>
     import_points i \<le> import_points (i\<lparr>import_total_value := x\<rparr>)"
  by (simp add: import_points_def)

lemma points_nonneg:
  "0 \<le> vehicle_points v" "0 \<le> property_points p" "0 \<le> import_points i"
  "0 \<le> undeclared_points d x"
  by (simp_all add: vehicle_points_def property_points_def import_points_def
      undeclared_points_def)

lemma percentage_of_mono:
  "0 < declared \<Longrightarrow> inferred \<le> inferred' \<Longrightarrow>
     percentage_of declared inferred \<le> percentage_of declared inferred'"
  by (simp add: percentage_of_def divide_right_mono)

lemma tier_mono:
  assumes "(if d > 0 then percentage_of d i else 100)
             \<le> (if d' > 0 then percentage_of d' i' else 100)"
    and "undeclared_points d i \<le> undeclared_points d' i'"
  shows "discrepancy_points (if d > 0 then percentage_of d i else 100) + undeclared_points d i
       \<le> discrepancy_points (if d' > 0 then percentage_of d' i' else 100) + undeclared_points d' i'"
  using discrepancy_points_mono [OF assms(1)] assms(2) by linarith

lemma calculate_risk_score_range:
  "\<exists>score. calculate_risk_score declared inferred assets = Inr score \<and> 0 \<le> score \<and> score \<le> 100"
proof -
  have "0 \<le> discrepancy_points (if declared > 0 then percentage_of declared inferred else 100)
          + vehicle_points (vehicles assets) + property_points (properties assets)
          + import_points (imports' assets) + undeclared_points declared inferred"
    using discrepancy_points_range
            [of "if declared > 0 then percentage_of declared inferred else 100"]
      points_nonneg(1) [of "vehicles assets"] points_nonneg(2) [of "properties assets"]
      points_nonneg(3) [of "imports' assets"] points_nonneg(4) [of declared inferred]
    by linarith
  then show ?thesis unfolding calculate_risk_score_points by simp
qed

lemma calculate_risk_score_mono_points:
  assumes "(if d > 0 then percentage_of d i else 100)
             \<le> (if d' > 0 then percentage_of d' i' else 100)"
    and "undeclared_points d i \<le> undeclared_points d' i'"
    and "vehicle_total_value (vehicles assets) \<le> vehicle_val"
    and "property_total_value (properties assets) \<le> property_val"
    and "import_total_value (imports' assets) \<le> import_val"
    and "calculate_risk_score d i assets = Inr score"
    and "calculate_risk_score d' i' (with_values assets vehicle_val property_val import_val)
           = Inr score'"
  shows "score \<le> score'"
proof -
  let ?a' = "with_values assets vehicle_val property_val import_val"
  have v: "vehicle_points (vehicles assets) \<le> vehicle_points (vehicles ?a')"
    using vehicle_points_mono [OF assms(3)] by (simp add: with_values_def)
  have p: "property_points (properties assets) \<le> property_points (properties ?a')"
    using property_points_mono [OF assms(4)] by (simp add: with_values_def)
  have i: "import_points (imports' assets) \<le> import_points (imports' ?a')"
    using import_points_mono [OF assms(5)] by (simp add: with_values_def)
  note t = tier_mono [OF assms(1) assms(2)]
  from assms(6) assms(7) show ?thesis
    unfolding calculate_risk_score_points using v p i t by simp
qed

text \<open>
  Claim C4, as amended. For every input \<^verbatim>\<open>calculate_risk_score\<close> returns a score between 0
  and 100. Between two inputs whose wealth profiles differ at most in raised vehicle,
  property and import total values, the score does not decrease when the discrepancy
  percentage, as \<^verbatim>\<open>detect_discrepancy\<close> computes it, is raised or kept, provided the addend
  for a zero declared income with an inferred income above 1,000,000 is not lost.
\<close>

theorem calculate_risk_score_monotone:
  "(\<exists>score. calculate_risk_score declared inferred assets = Inr score
             \<and> 0 \<le> score \<and> score \<le> 100)
   \<and> (detect_discrepancy declared inferred = Inr r
       \<and> detect_discrepancy declared' inferred' = Inr r'
       \<and> discrepancy_percentage r \<le> discrepancy_percentage r'
       \<and> (declared = 0 \<and> 1000000 < inferred \<longrightarrow> declared' = 0 \<and> 1000000 < inferred')
       \<and> vehicle_total_value (vehicles assets) \<le> vehicle_val
       \<and> property_total_value (properties assets) \<le> property_val
       \<and> import_total_value (imports' assets) \<le> import_val
      \<longrightarrow> (\<exists>score score'.
             calculate_risk_score declared inferred assets = Inr score
           \<and> calculate_risk_score declared' inferred'
                (with_values assets vehicle_val property_val import_val) = Inr score'
           \<and> score \<le> score'))"
proof (intro conjI impI)
  show "\<exists>score. calculate_risk_score declared inferred assets = Inr score
             \<and> 0 \<le> score \<and> score \<le> 100"
    by (rule calculate_risk_score_range)
next
  assume h: "detect_discrepancy declared inferred = Inr r
       \<and> detect_discrepancy declared' inferred' = Inr r'
       \<and> discrepancy_percentage r \<le> discrepancy_percentage r'
       \<and> (declared = 0 \<and> 1000000 < inferred \<longrightarrow> declared' = 0 \<and> 1000000 < inferred')
       \<and> vehicle_total_value (vehicles assets) \<le> vehicle_val
       \<and> property_total_value (properties assets) \<le> property_val
       \<and> import_total_value (imports' assets) \<le> import_val"
  from h have pct: "(if declared > 0 then percentage_of declared inferred else 100)
             \<le> (if declared' > 0 then percentage_of declared' inferred' else 100)"
    unfolding detect_discrepancy_eq by auto
  from h have und: "undeclared_points declared inferred \<le> undeclared_points declared' inferred'"
    by (simp add: undeclared_points_def)
  obtain score where s: "calculate_risk_score declared inferred assets = Inr score"
    using calculate_risk_score_range by blast
  obtain score' where s': "calculate_risk_score declared' inferred'
                (with_values assets vehicle_val property_val import_val) = Inr score'"
    using calculate_risk_score_range by blast
  from h have "score \<le> score'"
    using calculate_risk_score_mono_points [OF pct und _ _ _ s s'] by blast
  with s s' show "\<exists>score score'.
             calculate_risk_score declared inferred assets = Inr score
           \<and> calculate_risk_score declared' inferred'
                (with_values assets vehicle_val property_val import_val) = Inr score'
           \<and> score \<le> score'"
    by blast
qed

text \<open>The theorem at a declared income of 500,000 whose inferred income rises from 600,000
  to 2,000,000, so that the percentage rises from 20 to 300, while the three asset values
  rise past every threshold: the score goes from 0 to the cap.\<close>

theorem calculate_risk_score_monotone_witness:
  "detect_discrepancy 500000 600000 =
     Inr \<lparr> d_declared_income = 500000, d_inferred_income = 600000,
           discrepancy_amount = 100000, discrepancy_percentage = 20,
           has_discrepancy = True \<rparr>
   \<and> detect_discrepancy 500000 2000000 =
     Inr \<lparr> d_declared_income = 500000, d_inferred_income = 2000000,
           discrepancy_amount = 1500000, discrepancy_percentage = 300,
           has_discrepancy = True \<rparr>
   \<and> calculate_risk_score 500000 600000 sample_profile = Inr 0
   \<and> calculate_risk_score 500000 2000000
        (with_values sample_profile 25000000 60000000 6000000) = Inr 100
   \<and> (\<exists>score score'.
           calculate_risk_score 500000 600000 sample_profile = Inr score
         \<and> calculate_risk_score 500000 2000000
              (with_values sample_profile 25000000 60000000 6000000) = Inr score'
         \<and> score \<le> score')"
proof -
  have r: "detect_discrepancy 500000 600000 =
     Inr \<lparr> d_declared_income = 500000, d_inferred_income = 600000,
           discrepancy_amount = 100000, discrepancy_percentage = 20,
           has_discrepancy = True \<rparr>"
    by (simp add: detect_discrepancy_def py_truediv_def Let_def)
  have r': "detect_discrepancy 500000 2000000 =
     Inr \<lparr> d_declared_income = 500000, d_inferred_income = 2000000,
           discrepancy_amount = 1500000, discrepancy_percentage = 300,
           has_discrepancy = True \<rparr>"
    by (simp add: detect_discrepancy_def py_truediv_def Let_def)
  have h2: "vehicle_total_value (vehicles sample_profile) \<le> 25000000"
    and h3: "property_total_value (properties sample_profile) \<le> 60000000"
    and h4: "import_total_value (imports' sample_profile) \<le> 6000000"
    by (simp_all add: sample_profile_def)
  have a: "calculate_risk_score 500000 600000 sample_profile = Inr 0"
    by (simp add: calculate_risk_score_points percentage_of_def discrepancy_points_def
        vehicle_points_def property_points_def import_points_def undeclared_points_def
        sample_profile_def)
  have b: "calculate_risk_score 500000 2000000
        (with_values sample_profile 25000000 60000000 6000000) = Inr 100"
    by (simp add: calculate_risk_score_points percentage_of_def discrepancy_points_def
        vehicle_points_def property_points_def import_points_def undeclared_points_def
        sample_profile_def with_values_def)
  have "\<exists>score score'.
           calculate_risk_score 500000 600000 sample_profile = Inr score
         \<and> calculate_risk_score 500000 2000000
              (with_values sample_profile 25000000 60000000 6000000) = Inr score'
         \<and> score \<le> score'"
    using calculate_risk_score_monotone
      [where declared = 500000 and inferred = 600000 and assets = sample_profile
         and declared' = 500000 and inferred' = 2000000
         and vehicle_val = 25000000 and property_val = 60000000 and import_val = 6000000
         and r = "\<lparr> d_declared_income = 500000, d_inferred_income = 600000,
                    discrepancy_amount = 100000, discrepancy_percentage = 20,
                    has_discrepancy = True \<rparr>"
         and r' = "\<lparr> d_declared_income = 500000, d_inferred_income = 2000000,
                     discrepancy_amount = 1500000, discrepancy_percentage = 300,
                     has_discrepancy = True \<rparr>"]
      r r' h2 h3 h4
    by simp
  with r r' a b show ?thesis by blast
qed

text \<open>
  Claim C4 as stated fails. With the wealth profile kept, the inputs (declared 0, inferred
  1,500,000) and (declared 500,000, inferred 1,500,000) have the discrepancy percentages
  100 and 200, and the score falls from 40 to 30: the first input earns 20 for the
  percentage and 20 for the undeclared income, the second 30 for the percentage alone.
\<close>

theorem calculate_risk_score_percentage_counterexample:
  "detect_discrepancy 0 1500000 =
     Inr \<lparr> d_declared_income = 0, d_inferred_income = 1500000,
           discrepancy_amount = 1500000, discrepancy_percentage = 100,
           has_discrepancy = True \<rparr>
   \<and> detect_discrepancy 500000 1500000 =
     Inr \<lparr> d_declared_income = 500000, d_inferred_income = 1500000,
           discrepancy_amount = 1000000, discrepancy_percentage = 200,
           has_discrepancy = True \<rparr>
   \<and> calculate_risk_score 0 1500000 sample_profile = Inr 40
   \<and> calculate_risk_score 500000 1500000 sample_profile = Inr 30"
  by (simp add: detect_discrepancy_def py_truediv_def Let_def
      calculate_risk_score_points percentage_of_def discrepancy_points_def
      vehicle_points_def property_points_def import_points_def undeclared_points_def
      sample_profile_def)

text \<open>Raising the inferred income at a fixed declared income is a case of the theorem: the
  percentage does not fall and the addend for undeclared income is not lost.\<close>

lemma inferred_raised:
  assumes "inferred \<le> inferred'"
  shows "\<exists>r r'. detect_discrepancy declared inferred = Inr r
        \<and> detect_discrepancy declared inferred' = Inr r'
        \<and> discrepancy_percentage r \<le> discrepancy_percentage r'
        \<and> (declared = 0 \<and> 1000000 < inferred \<longrightarrow> declared = 0 \<and> 1000000 < inferred')"
  using assms percentage_of_mono [of declared inferred inferred']
  by (auto simp: detect_discrepancy_eq)

text \<open>
  Claim C5. \<^verbatim>\<open>detect_discrepancy\<close> returns on every input, never raising a division by
  zero: the discrepancy is inferred minus declared income; the percentage is the
  discrepancy divided by the declared income times 100 when the declared income is
  positive, and exactly 100 when it is zero, whatever the inferred income.
  \<^verbatim>\<open>calculate_risk_score\<close>, which evaluates the same expression, returns on every input too.
\<close>

theorem detect_discrepancy_defined:
  "detect_discrepancy declared inferred =
     Inr \<lparr> d_declared_income = declared, d_inferred_income = inferred,
           discrepancy_amount = inferred - declared,
           discrepancy_percentage =
             (if declared > 0 then (inferred - declared) / declared * 100 else 100),
           has_discrepancy = (inferred - declared > 0) \<rparr>
   \<and> detect_discrepancy 0 inferred =
     Inr \<lparr> d_declared_income = 0, d_inferred_income = inferred,
           discrepancy_amount = inferred, discrepancy_percentage = 100,
           has_discrepancy = (inferred > 0) \<rparr>
   \<and> (\<exists>score. calculate_risk_score declared inferred assets = Inr score)
   \<and> (\<exists>score. calculate_risk_score 0 inferred assets = Inr score)"
  by (simp add: detect_discrepancy_eq percentage_of_def calculate_risk_score_points)

lemma audit_cases_log_access [simp]: "audit_cases (log_access d p t a r) = audit_cases d"
  by (simp add: log_access_def)

lemma audit_cases_fetch:
  "audit_cases (fst (fetch_bank_data d p)) = audit_cases d"
  "audit_cases (fst (fetch_mpesa_data d p)) = audit_cases d"
  "audit_cases (fst (fetch_vehicle_data d p)) = audit_cases d"
  "audit_cases (fst (fetch_property_data d p)) = audit_cases d"
  "audit_cases (fst (fetch_import_data d p)) = audit_cases d"
  "audit_cases (fst (fetch_telco_data d p)) = audit_cases d"
  by (simp_all add: fetch_bank_data_def fetch_mpesa_data_def fetch_vehicle_data_def
      fetch_property_data_def fetch_import_data_def fetch_telco_data_def
      get_bank_transactions_def get_mpesa_transactions_def get_vehicle_assets_def
      get_property_assets_def get_import_records_def get_telco_usage_def)

lemma audit_cases_build_wealth_profile:
  "audit_cases (fst (build_wealth_profile d kra_pin)) = audit_cases d"
  unfolding build_wealth_profile_def Let_def split_beta fst_conv audit_cases_fetch ..

lemma determine_risk_level_cases:
  "determine_risk_level score =
     (if 61 \<le> score then ''HIGH'' else if 31 \<le> score then ''MEDIUM'' else ''LOW'')"
  by (simp add: determine_risk_level_def)

lemma determine_risk_level_high: "determine_risk_level score = ''HIGH'' \<longleftrightarrow> 61 \<le> score"
  by (simp add: determine_risk_level_def)

lemma determine_risk_level_medium:
  "determine_risk_level score = ''MEDIUM'' \<longleftrightarrow> 31 \<le> score \<and> score \<le> 60"
  by (auto simp add: determine_risk_level_def)

lemma determine_risk_level_low: "determine_risk_level score = ''LOW'' \<longleftrightarrow> score \<le> 30"
  by (auto simp add: determine_risk_level_def)

lemma has_any_data_build_wealth_profile:
  "has_any_data (snd (build_wealth_profile d kra_pin)) \<longleftrightarrow>
     bank_has_data (bank (snd (build_wealth_profile d kra_pin)))
   \<or> mpesa_has_data (mpesa (snd (build_wealth_profile d kra_pin)))
   \<or> vehicle_has_data (vehicles (snd (build_wealth_profile d kra_pin)))
   \<or> property_has_data (properties (snd (build_wealth_profile d kra_pin)))
   \<or> import_has_data (imports' (snd (build_wealth_profile d kra_pin)))
   \<or> telco_has_data (telco (snd (build_wealth_profile d kra_pin)))"
  by (simp add: build_wealth_profile_def Let_def split_beta)

lemma run_full_risk_analysis_no_data:
  assumes "build_wealth_profile d kra_pin = (d1, wp)" and "\<not> has_any_data wp"
  shows "run_full_risk_analysis d kra_pin declared_income =
     Inr (d1, \<lparr> a_kra_pin = kra_pin, a_risk_level = ''LOW'', a_risk_score = 0,
                 a_reason = ReasonText ''No external data available for verification'',
                 a_audit_case_created = Some False, a_declared_income = None,
                 a_inferred_income = None, a_discrepancy_amount = None, a_assets = None \<rparr>)"
  using assms by (simp add: run_full_risk_analysis_def)

lemma run_full_risk_analysis_scored:
  assumes "build_wealth_profile d kra_pin = (d1, wp)" and "has_any_data wp"
    and "calculate_risk_score declared_income (calculate_inferred_income wp) wp = Inr score"
  shows "\<exists>d2 a. run_full_risk_analysis d kra_pin declared_income = Inr (d2, a)
       \<and> a_risk_score a = score \<and> a_risk_level a = determine_risk_level score
       \<and> a_audit_case_created a = Some (determine_risk_level score = ''HIGH'')
       \<and> audit_cases d2 = audit_cases d1 @
            (if determine_risk_level score = ''HIGH''
             then [\<lparr> case_kra_pin = kra_pin, case_risk_score = score,
                     case_risk_level = ''HIGH'',
                     case_reason =
                       generate_audit_reason declared_income (calculate_inferred_income wp)
                         (calculate_inferred_income wp - declared_income) wp,
                     case_declared_income = declared_income,
                     case_inferred_income = calculate_inferred_income wp,
                     case_discrepancy_amount =
                       calculate_inferred_income wp - declared_income \<rparr>]
             else [])"
  using assms
  by (simp add: run_full_risk_analysis_def detect_discrepancy_eq Let_def
      create_audit_case_if_risky_def subscript_def create_audit_case_def)

text \<open>Without data the score the engine would compute stays below the HIGH threshold, so
  the short-circuit changes no decision about persisting.\<close>

lemma no_data_score:
  assumes "\<not> bank_has_data (bank wp)" "\<not> mpesa_has_data (mpesa wp)"
    "\<not> vehicle_has_data (vehicles wp)" "\<not> property_has_data (properties wp)"
    "\<not> import_has_data (imports' wp)"
  shows "\<exists>score. calculate_risk_score declared_income (calculate_inferred_income wp) wp
           = Inr score \<and> score \<le> 20"
proof -
  have i: "calculate_inferred_income wp = 0"
    using assms by (simp add: calculate_inferred_income_def)
  have "discrepancy_points (if declared_income > 0 then percentage_of declared_income 0 else 100)
          \<le> 20"
    by (simp add: discrepancy_points_def percentage_of_def)
  then show ?thesis
    unfolding calculate_risk_score_points i using assms
    by (simp add: vehicle_points_def property_points_def import_points_def
        undeclared_points_def)
qed

text \<open>
  Claim C3. For every store, taxpayer and declared income the audit pipeline returns. With
  the score that \<^verbatim>\<open>calculate_risk_score\<close> computes for the declared income and the wealth
  profile built from the store, a case is added to the stored audit cases if and only if
  that score is at least 61, which is if and only if the returned level is HIGH; the case
  carries the taxpayer, the score, the level, the reason and the two incomes. The pipeline
  returns the computed score and its level from \<^verbatim>\<open>determine_risk_level\<close> (score 0 when no
  source has data); a MEDIUM level is a score from 31 to 60, a LOW level a score of at most
  30, and with either the stored cases are unchanged.
\<close>

theorem audit_case_iff_high:
  "\<exists>d1 wp score d' a.
       build_wealth_profile d kra_pin = (d1, wp)
     \<and> calculate_risk_score declared_income (calculate_inferred_income wp) wp = Inr score
     \<and> run_full_risk_analysis d kra_pin declared_income = Inr (d', a)
     \<and> a_risk_score a = (if has_any_data wp then score else 0)
     \<and> a_risk_level a = determine_risk_level (a_risk_score a)
     \<and> (a_risk_level a = ''HIGH'' \<longleftrightarrow> 61 \<le> score)
     \<and> (a_risk_level a = ''HIGH'' \<longleftrightarrow> 61 \<le> a_risk_score a)
     \<and> (a_risk_level a = ''MEDIUM'' \<longleftrightarrow> 31 \<le> a_risk_score a \<and> a_risk_score a \<le> 60)
     \<and> (a_risk_level a = ''LOW'' \<longleftrightarrow> a_risk_score a \<le> 30)
     \<and> a_audit_case_created a = Some (61 \<le> score)
     \<and> (audit_cases d' \<noteq> audit_cases d \<longleftrightarrow> 61 \<le> score)
     \<and> audit_cases d' = audit_cases d @
          (if 61 \<le> score
           then [\<lparr> case_kra_pin = kra_pin, case_risk_score = score,
                   case_risk_level = ''HIGH'',
                   case_reason =
                     generate_audit_reason declared_income (calculate_inferred_income wp)
                       (calculate_inferred_income wp - declared_income) wp,
                   case_declared_income = declared_income,
                   case_inferred_income = calculate_inferred_income wp,
                   case_discrepancy_amount = calculate_inferred_income wp - declared_income \<rparr>]
           else [])"
proof -
  obtain d1 wp where bw: "build_wealth_profile d kra_pin = (d1, wp)"
    by (cases "build_wealth_profile d kra_pin")
  have ac: "audit_cases d1 = audit_cases d"
    using audit_cases_build_wealth_profile [of d kra_pin] bw by simp
  obtain score where sc:
    "calculate_risk_score declared_income (calculate_inferred_income wp) wp = Inr score"
    using calculate_risk_score_points by blast
  show ?thesis
  proof (cases "has_any_data wp")
    case False
    then have flags: "\<not> bank_has_data (bank wp)" "\<not> mpesa_has_data (mpesa wp)"
      "\<not> vehicle_has_data (vehicles wp)" "\<not> property_has_data (properties wp)"
      "\<not> import_has_data (imports' wp)"
      using has_any_data_build_wealth_profile [of d kra_pin] bw by simp_all
    from no_data_score [OF flags, of declared_income] sc have low: "score \<le> 20" by simp
    show ?thesis
      using bw sc run_full_risk_analysis_no_data [OF bw False, of declared_income] ac low False
      by (simp add: determine_risk_level_def)
  next
    case True
    from run_full_risk_analysis_scored [OF bw True sc] obtain d2 a where
      r: "run_full_risk_analysis d kra_pin declared_income = Inr (d2, a)"
      and s: "a_risk_score a = score" "a_risk_level a = determine_risk_level score"
        "a_audit_case_created a = Some (determine_risk_level score = ''HIGH'')"
      and c: "audit_cases d2 = audit_cases d1 @
            (if determine_risk_level score = ''HIGH''
             then [\<lparr> case_kra_pin = kra_pin, case_risk_score = score,
                     case_risk_level = ''HIGH'',
                     case_reason =
                       generate_audit_reason declared_income (calculate_inferred_income wp)
                         (calculate_inferred_income wp - declared_income) wp,
                     case_declared_income = declared_income,
                     case_inferred_income = calculate_inferred_income wp,
                     case_discrepancy_amount =
                       calculate_inferred_income wp - declared_income \<rparr>]
             else [])"
      by blast
    have "a_risk_score a = (if has_any_data wp then score else 0)
     \<and> a_risk_level a = determine_risk_level (a_risk_score a)
     \<and> (a_risk_level a = ''HIGH'' \<longleftrightarrow> 61 \<le> score)
     \<and> (a_risk_level a = ''HIGH'' \<longleftrightarrow> 61 \<le> a_risk_score a)
     \<and> (a_risk_level a = ''MEDIUM'' \<longleftrightarrow> 31 \<le> a_risk_score a \<and> a_risk_score a \<le> 60)
     \<and> (a_risk_level a = ''LOW'' \<longleftrightarrow> a_risk_score a \<le> 30)
     \<and> a_audit_case_created a = Some (61 \<le> score)
     \<and> (audit_cases d2 \<noteq> audit_cases d \<longleftrightarrow> 61 \<le> score)
     \<and> audit_cases d2 = audit_cases d @
          (if 61 \<le> score
           then [\<lparr> case_kra_pin = kra_pin, case_risk_score = score,
                   case_risk_level = ''HIGH'',
                   case_reason =
                     generate_audit_reason declared_income (calculate_inferred_income wp)
                       (calculate_inferred_income wp - declared_income) wp,
                   case_declared_income = declared_income,
                   case_inferred_income = calculate_inferred_income wp,
                   case_discrepancy_amount = calculate_inferred_income wp - declared_income \<rparr>]
           else [])"
      using s c ac True
      by (simp add: determine_risk_level_high determine_risk_level_medium
          determine_risk_level_low)
    with bw sc r show ?thesis by blast
  qed
qed

lemmas fetch_eval = build_wealth_profile_def fetch_bank_data_def fetch_mpesa_data_def
      fetch_vehicle_data_def fetch_property_data_def fetch_import_data_def
      fetch_telco_data_def get_bank_transactions_def get_mpesa_transactions_def
      get_vehicle_assets_def get_property_assets_def get_import_records_def
      get_telco_usage_def log_access_def Let_def

lemmas points_eval = calculate_risk_score_points percentage_of_def discrepancy_points_def
      vehicle_points_def property_points_def import_points_def undeclared_points_def
      calculate_inferred_income_def

text \<open>The theorem on a store with a bank credit of 5,000,000 and a vehicle of 25,000,000.
  Against a declared income of 500,000 the score is 40 + 25 = 65: the level is HIGH and one
  case with that score is stored. Against a declared income of 2,000,000 the score is
  30 + 25 = 55: the level is MEDIUM and nothing is stored.\<close>

theorem audit_case_iff_high_witness:
  "(\<exists>d' a c. run_full_risk_analysis risky_db ''A001234567P'' 500000 = Inr (d', a)
       \<and> a_risk_score a = 65 \<and> a_risk_level a = ''HIGH''
       \<and> a_audit_case_created a = Some True
       \<and> audit_cases d' = [c] \<and> case_kra_pin c = ''A001234567P''
       \<and> case_risk_score c = 65 \<and> case_risk_level c = ''HIGH''
       \<and> case_declared_income c = 500000 \<and> case_inferred_income c = 5000000)
   \<and> (\<exists>d' a. run_full_risk_analysis risky_db ''A001234567P'' 2000000 = Inr (d', a)
       \<and> a_risk_score a = 55 \<and> a_risk_level a = ''MEDIUM''
       \<and> a_audit_case_created a = Some False
       \<and> audit_cases d' = [])"
proof -
  have wp: "snd (build_wealth_profile risky_db ''A001234567P'') =
     \<lparr> profile_kra_pin = ''A001234567P'',
       bank = \<lparr> bank_kra_pin = ''A001234567P'', total_inflows = 5000000,
                bank_transaction_count = 1, bank_has_data = True,
                latest_balance = Some 5000000 \<rparr>,
       mpesa = \<lparr> mpesa_kra_pin = ''A001234567P'', total_received = 0,
                 mpesa_transaction_count = 0, mpesa_has_data = False \<rparr>,
       vehicles = \<lparr> vehicle_kra_pin = ''A001234567P'', vehicle_count = 1,
                    vehicle_total_value = 25000000, vehicle_has_data = True,
                    vehicles_list = Some [(''Toyota'', ''Land Cruiser'', 25000000)] \<rparr>,
       properties = \<lparr> property_kra_pin = ''A001234567P'', property_count = 0,
                      property_total_value = 0, property_has_data = False,
                      properties_list = None \<rparr>,
       imports' = \<lparr> import_kra_pin = ''A001234567P'', import_count = 0,
                    import_total_value = 0, import_has_data = False \<rparr>,
       telco = \<lparr> telco_kra_pin = ''A001234567P'', telco_has_data = False,
                 months_tracked = None, total_bills = None \<rparr>,
       has_any_data = True \<rparr>"
    by (simp add: fetch_eval risky_db_def)
  have s1: "calculate_risk_score 500000
       (calculate_inferred_income (snd (build_wealth_profile risky_db ''A001234567P'')))
       (snd (build_wealth_profile risky_db ''A001234567P'')) = Inr 65"
    unfolding wp by (simp add: points_eval)
  have s2: "calculate_risk_score 2000000
       (calculate_inferred_income (snd (build_wealth_profile risky_db ''A001234567P'')))
       (snd (build_wealth_profile risky_db ''A001234567P'')) = Inr 55"
    unfolding wp by (simp add: points_eval)
  have i: "calculate_inferred_income (snd (build_wealth_profile risky_db ''A001234567P''))
             = 5000000"
    unfolding wp by (simp add: calculate_inferred_income_def)
  have e: "audit_cases risky_db = []" by (simp add: risky_db_def)
  have h: "has_any_data (snd (build_wealth_profile risky_db ''A001234567P''))"
    unfolding wp by simp
  have "\<exists>d' a c. run_full_risk_analysis risky_db ''A001234567P'' 500000 = Inr (d', a)
       \<and> a_risk_score a = 65 \<and> a_risk_level a = ''HIGH''
       \<and> a_audit_case_created a = Some True
       \<and> audit_cases d' = [c] \<and> case_kra_pin c = ''A001234567P''
       \<and> case_risk_score c = 65 \<and> case_risk_level c = ''HIGH''
       \<and> case_declared_income c = 500000 \<and> case_inferred_income c = 5000000"
    using audit_case_iff_high [of risky_db "''A001234567P''" 500000] s1 i e h
    by (auto simp: determine_risk_level_def)
  moreover have "\<exists>d' a. run_full_risk_analysis risky_db ''A001234567P'' 2000000 = Inr (d', a)
       \<and> a_risk_score a = 55 \<and> a_risk_level a = ''MEDIUM''
       \<and> a_audit_case_created a = Some False
       \<and> audit_cases d' = []"
    using audit_case_iff_high [of risky_db "''A001234567P''" 2000000] s2 i e h
    by (auto simp: determine_risk_level_def)
  ultimately show ?thesis by blast
qed

text \<open>
  Claim C8. If all six source summaries of the wealth profile report no data, the profile's
  flag \<^verbatim>\<open>has_any_data\<close> is false and the audit pipeline returns score 0 and level LOW with
  no audit case created: the stored cases are unchanged.
\<close>

theorem no_data_low_risk:
  assumes "\<not> bank_has_data (bank (snd (build_wealth_profile d kra_pin)))"
    and "\<not> mpesa_has_data (mpesa (snd (build_wealth_profile d kra_pin)))"
    and "\<not> vehicle_has_data (vehicles (snd (build_wealth_profile d kra_pin)))"
    and "\<not> property_has_data (properties (snd (build_wealth_profile d kra_pin)))"
    and "\<not> import_has_data (imports' (snd (build_wealth_profile d kra_pin)))"
    and "\<not> telco_has_data (telco (snd (build_wealth_profile d kra_pin)))"
  shows "\<exists>d' a. run_full_risk_analysis d kra_pin declared_income = Inr (d', a)
     \<and> \<not> has_any_data (snd (build_wealth_profile d kra_pin))
     \<and> a_risk_score a = 0 \<and> a_risk_level a = ''LOW''
     \<and> a_audit_case_created a = Some False
     \<and> audit_cases d' = audit_cases d"
proof -
  obtain d1 wp where bw: "build_wealth_profile d kra_pin = (d1, wp)"
    by (cases "build_wealth_profile d kra_pin")
  have ac: "audit_cases d1 = audit_cases d"
    using audit_cases_build_wealth_profile [of d kra_pin] bw by simp
  have nd: "\<not> has_any_data (snd (build_wealth_profile d kra_pin))"
    using assms has_any_data_build_wealth_profile [of d kra_pin] by blast
  then have "\<not> has_any_data wp" using bw by simp
  from run_full_risk_analysis_no_data [OF bw this] nd ac show ?thesis by simp
qed

text \<open>The theorem on the empty store.\<close>

theorem no_data_low_risk_witness:
  "\<not> bank_has_data (bank (snd (build_wealth_profile empty_db ''A001234567P'')))
   \<and> (\<exists>d' a. run_full_risk_analysis empty_db ''A001234567P'' 500000 = Inr (d', a)
     \<and> \<not> has_any_data (snd (build_wealth_profile empty_db ''A001234567P''))
     \<and> a_risk_score a = 0 \<and> a_risk_level a = ''LOW''
     \<and> a_audit_case_created a = Some False
     \<and> audit_cases d' = audit_cases empty_db)"
proof -
  have h: "\<not> bank_has_data (bank (snd (build_wealth_profile empty_db ''A001234567P'')))"
    "\<not> mpesa_has_data (mpesa (snd (build_wealth_profile empty_db ''A001234567P'')))"
    "\<not> vehicle_has_data (vehicles (snd (build_wealth_profile empty_db ''A001234567P'')))"
    "\<not> property_has_data (properties (snd (build_wealth_profile empty_db ''A001234567P'')))"
    "\<not> import_has_data (imports' (snd (build_wealth_profile empty_db ''A001234567P'')))"
    "\<not> telco_has_data (telco (snd (build_wealth_profile empty_db ''A001234567P'')))"
    by (simp_all add: fetch_eval empty_db_def)
  from no_data_low_risk [OF h] h(1) show ?thesis by blast
qed

section \<open>The filing conversation\<close>

lemma kra_pin_pattern_items:
  "kra_pin_pattern =
     [Bol, Lit 65, Digit, Digit, Digit, Digit, Digit, Digit, Digit, Digit, Digit, Lit 80, Eol]"
  by (simp add: kra_pin_pattern_def eval_nat_numeral)

lemma date_pattern_items:
  "date_pattern =
     [Bol, Digit, Digit, Digit, Digit, Lit 45, Digit, Digit, Lit 45, Digit, Digit, Eol]"
  by (simp add: date_pattern_def eval_nat_numeral)

lemmas injection_eval = detect_prompt_injection_def dangerous_patterns_def py_lower_def
  py_lower_char_def is_upper_def is_space_def

lemma safe_messages:
  "safe (detect_prompt_injection ''A001234567P'')"
  "safe (detect_prompt_injection ''Original'')"
  "safe (detect_prompt_injection ''Head Office'')"
  "safe (detect_prompt_injection ''2024-01-01'')"
  "safe (detect_prompt_injection ''2024-01-31'')"
  "safe (detect_prompt_injection ''2024-12-31'')"
  "safe (detect_prompt_injection ''KCB'')"
  "safe (detect_prompt_injection ''Main'')"
  "safe (detect_prompt_injection ''Nairobi'')"
  "safe (detect_prompt_injection ''Jane Doe'')"
  "safe (detect_prompt_injection ''12345'')"
  "safe (detect_prompt_injection ''No'')"
  "safe (detect_prompt_injection ''yes'')"
  "safe (detect_prompt_injection ''Yes'')"
  "safe (detect_prompt_injection ''YES'')"
  by (simp_all add: injection_eval)

lemmas chat_eval = main_def get_next_question_def validate_response_def
  py_lower_def py_lower_char_def is_upper_def is_space_def py_strip_def startswith_def
  result_valid_def result_error_def result_value_def conditions_get_def Let_def
  validate_kra_pin_def kra_pin_pattern_items re_match_def code_points_def latin1_nd_def
  re_digit_def dict_get_def preceded_by_def transition_def enter_section_def open_section_def
  validate_date_input_def date_pattern_items py_split_def py_int_def digits_value_def
  digit_val_def is_digit_def session_after_def flag_is_yes_def safe_messages

lemmas vat3_forms = process_vat3_section_a_def section_a_info_def
  process_vat3_section_b_def section_b_general_sales_def
  process_vat3_section_c_def section_c_other_sales_def
  process_vat3_section_d_def section_d_zero_rated_def
  process_vat3_section_e_def section_e_exempt_def
  process_vat3_section_f_def section_f_general_purchases_def

lemmas it1_forms = process_section_a_part1_def section_a_part1_def
  process_section_a_part2_def section_a_part2_def
  process_section_a_part3_def section_a_part3_def
  process_section_f_def section_f_employment_income_def
  process_section_m_paye_def section_m_paye_def

subsection \<open>A VAT3 filing stops at section F\<close>

lemma conversation_vat3:
  "conversation (begin_vat3 sid) vat3_answers =
     \<lparr> session_id = sid, filing_started = True, filing_type = Some ''VAT3'',
       current_section = ''VAT_F'',
       collected_data =
         [''VAT_A'' \<mapsto>
            [''kra_pin'' \<mapsto> PyStr ''A001234567P'',
             ''return_type'' \<mapsto> PyStr ''Original'',
             ''entity_type'' \<mapsto> PyStr ''Head Office'',
             ''period_from'' \<mapsto> PyStr ''2024-01-01'',
             ''period_to'' \<mapsto> PyStr ''2024-01-31'',
             ''non_resident'' \<mapsto> PyStr ''No''],
          ''VAT_B'' \<mapsto> [''has_16_sales'' \<mapsto> PyStr ''No''],
          ''VAT_C'' \<mapsto> [''has_8_sales'' \<mapsto> PyStr ''No''],
          ''VAT_D'' \<mapsto> [''has_zero_rated_sales'' \<mapsto> PyStr ''No''],
          ''VAT_E'' \<mapsto> [''has_exempt_sales'' \<mapsto> PyStr ''No'']],
       current_question_index = 0, pending_sections = [],
       current_section_data = section_f_general_purchases,
       section_responses = Map.empty \<rparr>"
  by (simp add: vat3_answers_def begin_vat3_def chat_eval vat3_forms)

lemma main_ignores:
  assumes "filing_started s"
    and "get_next_question (current_section s) (current_section_data s) (section_responses s)
           = None"
  shows "main s m = Returned s (if safe (detect_prompt_injection m) then [] else invalid_input_reply)"
  using assms by (simp add: main_def invalid_input_reply_def)

text \<open>
  Claim C7 does not hold of the code. In a VAT3 filing that has answered the sections A
  to E, the answer that completes section F makes the handler raise \<^verbatim>\<open>NameError\<close>: the
  section id has been set to \<^verbatim>\<open>VAT_G\<close>, the schema and the responses are still those of
  section F, and no message of section G has been sent. From then on the session has no
  question left and no transition is tried: every message is answered by nothing (or by
  the reply to an unsafe message), so the sections G to L are never reached. The
  transitions out of the sections I, J and K raise as well, and the one that completes
  section L raises after the summary, with the collected data not cleared.
\<close>

theorem vat3_section_f_raises:
  "(let s = conversation (begin_vat3 sid) vat3_answers;
        stuck = s\<lparr> current_section := ''VAT_G'',
                   section_responses := [''has_16_purchases'' \<mapsto> PyStr ''No''],
                   collected_data := (collected_data s)
                     (''VAT_F'' \<mapsto> [''has_16_purchases'' \<mapsto> PyStr ''No'']) \<rparr>
    in current_section s = ''VAT_F''
       \<and> filing_started s
       \<and> main s ''No''
           = Raised NameError stuck
               [SaveResponse (PyStr ''UNKNOWN'') ''VAT3'' ''VAT_F'' ''has_16_purchases''
                  (PyStr ''No'') sid]
       \<and> current_section_data stuck = section_f_general_purchases
       \<and> filing_started stuck
       \<and> (\<forall>m. main stuck m
                = Returned stuck
                    (if safe (detect_prompt_injection m) then [] else invalid_input_reply)))
   \<and> transition (t\<lparr> filing_type := Some ''VAT3'', current_section := ''VAT_I'' \<rparr>)
       = Raised NameError (t\<lparr> filing_type := Some ''VAT3'', current_section := ''VAT_J'' \<rparr>) []
   \<and> transition (t\<lparr> filing_type := Some ''VAT3'', current_section := ''VAT_J'' \<rparr>)
       = Raised NameError (t\<lparr> filing_type := Some ''VAT3'', current_section := ''VAT_J'' \<rparr>) []
   \<and> transition (t\<lparr> filing_type := Some ''VAT3'', current_section := ''VAT_K'' \<rparr>)
       = Raised NameError (t\<lparr> filing_type := Some ''VAT3'', current_section := ''VAT_K'' \<rparr>) []
   \<and> transition (t\<lparr> filing_type := Some ''VAT3'', current_section := ''VAT_L'' \<rparr>)
       = Raised NameError
           (t\<lparr> filing_type := Some ''VAT3'', current_section := ''VAT_L'',
                filing_started := False \<rparr>)
           [Message ''VAT3 Section L completed! Computing your VAT...'',
            VatSummary (section_o_calculation (collected_data t))]"
proof -
  let ?s = "conversation (begin_vat3 sid) vat3_answers"
  let ?stuck = "?s\<lparr> current_section := ''VAT_G'',
                   section_responses := [''has_16_purchases'' \<mapsto> PyStr ''No''],
                   collected_data := (collected_data ?s)
                     (''VAT_F'' \<mapsto> [''has_16_purchases'' \<mapsto> PyStr ''No'']) \<rparr>"
  have a: "current_section ?s = ''VAT_F''" "filing_started ?s"
    by (simp_all add: conversation_vat3)
  have b: "main ?s ''No''
           = Raised NameError ?stuck
               [SaveResponse (PyStr ''UNKNOWN'') ''VAT3'' ''VAT_F'' ''has_16_purchases''
                  (PyStr ''No'') sid]"
    unfolding conversation_vat3 by (simp add: chat_eval section_f_general_purchases_def)
  have c: "current_section_data ?stuck = section_f_general_purchases" "filing_started ?stuck"
    by (simp_all add: conversation_vat3)
  have "get_next_question (current_section ?stuck) (current_section_data ?stuck)
          (section_responses ?stuck) = None"
    by (simp add: conversation_vat3 get_next_question_def conditions_get_def
          section_f_general_purchases_def)
  then have d: "\<And>m. main ?stuck m
                = Returned ?stuck
                    (if safe (detect_prompt_injection m) then [] else invalid_input_reply)"
    using c(2) by (rule main_ignores [rotated])
  have e: "transition (t\<lparr> filing_type := Some ''VAT3'', current_section := ''VAT_I'' \<rparr>)
       = Raised NameError (t\<lparr> filing_type := Some ''VAT3'', current_section := ''VAT_J'' \<rparr>) []"
    "transition (t\<lparr> filing_type := Some ''VAT3'', current_section := ''VAT_J'' \<rparr>)
       = Raised NameError (t\<lparr> filing_type := Some ''VAT3'', current_section := ''VAT_J'' \<rparr>) []"
    "transition (t\<lparr> filing_type := Some ''VAT3'', current_section := ''VAT_K'' \<rparr>)
       = Raised NameError (t\<lparr> filing_type := Some ''VAT3'', current_section := ''VAT_K'' \<rparr>) []"
    "transition (t\<lparr> filing_type := Some ''VAT3'', current_section := ''VAT_L'' \<rparr>)
       = Raised NameError
           (t\<lparr> filing_type := Some ''VAT3'', current_section := ''VAT_L'',
                filing_started := False \<rparr>)
           [Message ''VAT3 Section L completed! Computing your VAT...'',
            VatSummary (section_o_calculation (collected_data t))]"
    by (simp_all add: transition_def)
  show ?thesis
    unfolding Let_def using a b c d e by blast
qed

subsection \<open>The answer \<^verbatim>\<open>yes\<close> and the answer \<^verbatim>\<open>Yes\<close>\<close>

lemma conversation_it1:
  "conversation (begin_it1 sid) it1_answers =
     \<lparr> session_id = sid, filing_started = True, filing_type = Some ''IT1'',
       current_section = ''F'',
       collected_data =
         [''A_PART1'' \<mapsto>
            [''kra_pin'' \<mapsto> PyStr ''A001234567P'',
             ''return_type'' \<mapsto> PyStr ''Original'',
             ''period_from'' \<mapsto> PyStr ''2024-01-01'',
             ''period_to'' \<mapsto> PyStr ''2024-12-31'',
             ''has_other_income'' \<mapsto> PyStr ''No'',
             ''has_partnership_income'' \<mapsto> PyStr ''No'',
             ''has_car_benefit'' \<mapsto> PyStr ''No'',
             ''has_mortgage'' \<mapsto> PyStr ''No'',
             ''has_insurance'' \<mapsto> PyStr ''No'',
             ''has_foreign_income'' \<mapsto> PyStr ''No'',
             ''has_disability'' \<mapsto> PyStr ''No'',
             ''declare_spouse_income'' \<mapsto> PyStr ''No''],
          ''A_PART2'' \<mapsto>
            [''bank_name'' \<mapsto> PyStr ''KCB'',
             ''branch_name'' \<mapsto> PyStr ''Main'',
             ''city'' \<mapsto> PyStr ''Nairobi'',
             ''account_holder_name'' \<mapsto> PyStr ''Jane Doe'',
             ''account_number'' \<mapsto> PyStr ''12345''],
          ''A_PART3'' \<mapsto> [''is_audited'' \<mapsto> PyStr ''No'']],
       current_question_index = 0, pending_sections = [],
       current_section_data = section_f_employment_income,
       section_responses = Map.empty \<rparr>"
  by (simp add: it1_answers_def begin_it1_def chat_eval it1_forms)

text \<open>
  Claim C6 does not hold of the code. The answer is stored as typed, and the test that
  chooses the next section lowers it before it compares; but the conditional questions of a
  section are looked up under the answer itself, and the only key is \<^verbatim>\<open>Yes\<close>. In an IT1
  filing that has reached section F, the answer \<^verbatim>\<open>Yes\<close> to the question on employment
  income is followed by the question for the employer's PIN, the first of the seven
  conditional questions of section F. The answers \<^verbatim>\<open>yes\<close> and \<^verbatim>\<open>YES\<close> are followed by none of
  them: section F is complete at once, and the filing goes on to section M, the section for
  those who have employment income.
\<close>

theorem conditional_questions_need_capital_yes:
  "(let s = conversation (begin_it1 sid) it1_answers;
        stored = (\<lambda>a. (collected_data s)(''F'' \<mapsto> [''has_employment_income'' \<mapsto> PyStr a]));
        saved = (\<lambda>a. SaveResponse (PyStr ''A001234567P'') ''IT1'' ''F''
                         ''has_employment_income'' (PyStr a) sid);
        in_section_m = (\<lambda>a. s\<lparr> current_section := ''M'',
                                 current_section_data := section_m_paye,
                                 collected_data := stored a \<rparr>)
    in current_section s = ''F''
       \<and> section_responses s = Map.empty
       \<and> main s ''Yes''
           = Returned
               (s\<lparr> section_responses := [''has_employment_income'' \<mapsto> PyStr ''Yes''],
                    collected_data := stored ''Yes'',
                    current_question_index := 1 \<rparr>)
               [saved ''Yes'', Message ''PIN of employer?'']
       \<and> get_next_question ''F'' section_f_employment_income
             [''has_employment_income'' \<mapsto> PyStr ''Yes'']
           = Some \<lparr> q_id = ''q2'', q_text = ''PIN of employer?'', q_field = ''employer_pin'' \<rparr>
       \<and> get_next_question ''F'' section_f_employment_income
             [''has_employment_income'' \<mapsto> PyStr ''yes''] = None
       \<and> get_next_question ''F'' section_f_employment_income
             [''has_employment_income'' \<mapsto> PyStr ''YES''] = None
       \<and> main s ''yes''
           = Returned (in_section_m ''yes'')
               [saved ''yes'', Message ''Section F completed!'',
                Message (sr_message process_section_m_paye), Message ''PIN of employer?'']
       \<and> main s ''YES''
           = Returned (in_section_m ''YES'')
               [saved ''YES'', Message ''Section F completed!'',
                Message (sr_message process_section_m_paye), Message ''PIN of employer?''])"
proof -
  let ?s = "conversation (begin_it1 sid) it1_answers"
  have a: "current_section ?s = ''F''" "section_responses ?s = Map.empty"
    by (simp_all add: conversation_it1)
  have b: "main ?s ''Yes''
           = Returned
               (?s\<lparr> section_responses := [''has_employment_income'' \<mapsto> PyStr ''Yes''],
                    collected_data := (collected_data ?s)
                      (''F'' \<mapsto> [''has_employment_income'' \<mapsto> PyStr ''Yes'']),
                    current_question_index := 1 \<rparr>)
               [SaveResponse (PyStr ''A001234567P'') ''IT1'' ''F''
                  ''has_employment_income'' (PyStr ''Yes'') sid,
                Message ''PIN of employer?'']"
    unfolding conversation_it1 by (simp add: chat_eval section_f_employment_income_def)
  have c: "get_next_question ''F'' section_f_employment_income
             [''has_employment_income'' \<mapsto> PyStr ''Yes'']
           = Some \<lparr> q_id = ''q2'', q_text = ''PIN of employer?'', q_field = ''employer_pin'' \<rparr>"
    "get_next_question ''F'' section_f_employment_income
             [''has_employment_income'' \<mapsto> PyStr ''yes''] = None"
    "get_next_question ''F'' section_f_employment_income
             [''has_employment_income'' \<mapsto> PyStr ''YES''] = None"
    by (simp_all add: get_next_question_def conditions_get_def section_f_employment_income_def)
  have d: "main ?s ''yes''
           = Returned
               (?s\<lparr> current_section := ''M'', current_section_data := section_m_paye,
                    collected_data := (collected_data ?s)
                      (''F'' \<mapsto> [''has_employment_income'' \<mapsto> PyStr ''yes'']) \<rparr>)
               [SaveResponse (PyStr ''A001234567P'') ''IT1'' ''F''
                  ''has_employment_income'' (PyStr ''yes'') sid,
                Message ''Section F completed!'',
                Message (sr_message process_section_m_paye), Message ''PIN of employer?'']"
    unfolding conversation_it1
    by (simp add: chat_eval section_f_employment_income_def process_section_m_paye_def
          section_m_paye_def)
  have e: "main ?s ''YES''
           = Returned
               (?s\<lparr> current_section := ''M'', current_section_data := section_m_paye,
                    collected_data := (collected_data ?s)
                      (''F'' \<mapsto> [''has_employment_income'' \<mapsto> PyStr ''YES'']) \<rparr>)
               [SaveResponse (PyStr ''A001234567P'') ''IT1'' ''F''
                  ''has_employment_income'' (PyStr ''YES'') sid,
                Message ''Section F completed!'',
                Message (sr_message process_section_m_paye), Message ''PIN of employer?'']"
    unfolding conversation_it1
    by (simp add: chat_eval section_f_employment_income_def process_section_m_paye_def
          section_m_paye_def)
  show ?thesis
    unfolding Let_def using a b c d e by simp
qed

end
